theory Spec2Isabelle
  imports Complex_Main "HOL-Library.Word" "HOL-Library.Sublist"
begin

section \<open>JavaScript strings\<close>

text \<open>
  A JavaScript string is a sequence of UTF-16 code units; \<open>length\<close>, \<open>substring\<close>,
  \<open>trim\<close>, \<open>includes\<close>, \<open>split\<close>, \<open>join\<close> and the regular expressions of the
  sources all work on code units.
\<close>

type_synonym jschar = "16 word"
type_synonym jsstring = "jschar list"

definition str :: "string \<Rightarrow> jsstring" where
  "str s = map (\<lambda>c. of_nat (of_char c)) s"

abbreviation TAB :: jschar where "TAB \<equiv> 0x09"
abbreviation LF :: jschar where "LF \<equiv> 0x0A"
abbreviation CR :: jschar where "CR \<equiv> 0x0D"
abbreviation SP :: jschar where "SP \<equiv> 0x20"

text \<open>
  The characters removed by \<open>String.prototype.trim\<close> and matched by \<open>\s\<close>: the
  WhiteSpace and LineTerminator code points of ECMAScript.
\<close>

definition isWhiteSpace :: "jschar \<Rightarrow> bool" where
  "isWhiteSpace c \<longleftrightarrow>
     c = 0x09 \<or> c = 0x0A \<or> c = 0x0B \<or> c = 0x0C \<or> c = 0x0D \<or> c = 0x20 \<or> c = 0xA0 \<or>
     c = 0x1680 \<or> (0x2000 \<le> c \<and> c \<le> 0x200A) \<or> c = 0x2028 \<or> c = 0x2029 \<or>
     c = 0x202F \<or> c = 0x205F \<or> c = 0x3000 \<or> c = 0xFEFF"

text \<open>\<open>s.trim()\<close>; also \<open>s.replace(/^\s+|\s+$/g, '')\<close>, which deletes the leading
  and the trailing maximal run of white space.\<close>

definition trim :: "jsstring \<Rightarrow> jsstring" where
  "trim s = rev (dropWhile isWhiteSpace (rev (dropWhile isWhiteSpace s)))"

text \<open>\<open>s.includes(sub)\<close>\<close>

fun js_includes :: "jsstring \<Rightarrow> jsstring \<Rightarrow> bool" where
  "js_includes [] sub = (sub = [])"
| "js_includes (c # cs) sub = (prefix sub (c # cs) \<or> js_includes cs sub)"

text \<open>\<open>xs.join(sep)\<close>\<close>

fun js_join :: "jsstring \<Rightarrow> jsstring list \<Rightarrow> jsstring" where
  "js_join sep [] = []"
| "js_join sep [k] = k"
| "js_join sep (k # ks) = k @ sep @ js_join sep ks"

text \<open>
  \<open>s.split(sep)\<close> for a non-empty separator: the occurrences of \<open>sep\<close> are found from
  left to right without overlap; \<open>cur\<close> holds the piece being read, reversed.
\<close>

function split_from :: "jsstring \<Rightarrow> jsstring \<Rightarrow> jsstring \<Rightarrow> jsstring list" where
  "split_from sep cur s =
     (if s = [] then [rev cur]
      else if sep \<noteq> [] \<and> prefix sep s then rev cur # split_from sep [] (drop (length sep) s)
      else split_from sep (hd s # cur) (tl s))"
  by pat_completeness auto
termination
  by (relation "measure (\<lambda>(sep, cur, s). length s)") auto

declare split_from.simps [simp del]

definition js_split :: "jsstring \<Rightarrow> jsstring \<Rightarrow> jsstring list" where
  "js_split sep s = split_from sep [] s"

text \<open>The decimal numeral of a natural number, as a template literal prints it.\<close>

fun dec :: "nat \<Rightarrow> jsstring" where
  "dec n = (if n < 10 then [of_nat (48 + n)] else dec (n div 10) @ [of_nat (48 + n mod 10)])"

declare dec.simps [simp del]

section \<open>Regular-expression replacements of the text cleaners\<close>

text \<open>\<open>.replace(/\r\n/g, '\n')\<close>\<close>

fun replace_crlf :: "jsstring \<Rightarrow> jsstring" where
  "replace_crlf [] = []"
| "replace_crlf [c] = [c]"
| "replace_crlf (a # b # cs) =
     (if a = CR \<and> b = LF then LF # replace_crlf cs else a # replace_crlf (b # cs))"

text \<open>\<open>.replace(/\r/g, '\n')\<close>\<close>

definition replace_cr :: "jsstring \<Rightarrow> jsstring" where
  "replace_cr s = map (\<lambda>c. if c = CR then LF else c) s"

text \<open>\<open>.replace(/\n{3,}/g, '\n\n')\<close>: where three or more line feeds start, the whole
  run is the match.\<close>

function replace_nl3 :: "jsstring \<Rightarrow> jsstring" where
  "replace_nl3 [] = []"
| "replace_nl3 (c # cs) =
     (if c = LF \<and> 2 \<le> length (takeWhile (\<lambda>x. x = LF) cs)
      then LF # LF # replace_nl3 (dropWhile (\<lambda>x. x = LF) cs)
      else c # replace_nl3 cs)"
  by pat_completeness auto
termination
  by (relation "measure length") (auto simp: le_imp_less_Suc length_dropWhile_le)

text \<open>\<open>.replace(/[ \t]+/g, ' ')\<close>\<close>

definition isBlank :: "jschar \<Rightarrow> bool" where
  "isBlank c \<longleftrightarrow> c = SP \<or> c = TAB"

function replace_blanks :: "jsstring \<Rightarrow> jsstring" where
  "replace_blanks [] = []"
| "replace_blanks (c # cs) =
     (if isBlank c then SP # replace_blanks (dropWhile isBlank cs)
      else c # replace_blanks cs)"
  by pat_completeness auto
termination
  by (relation "measure length") (auto simp: le_imp_less_Suc length_dropWhile_le)

text \<open>\<open>.replace(/[^\x20-\x7E\n]/g, '')\<close>\<close>

definition isPrintable :: "jschar \<Rightarrow> bool" where
  "isPrintable c \<longleftrightarrow> (0x20 \<le> c \<and> c \<le> 0x7E) \<or> c = LF"

definition replace_nonprintable :: "jsstring \<Rightarrow> jsstring" where
  "replace_nonprintable s = filter isPrintable s"

text \<open>The part the two cleaners share: the first four replacements and the trim.\<close>

definition normalize_ws :: "jsstring \<Rightarrow> jsstring" where
  "normalize_ws text = trim (replace_blanks (replace_nl3 (replace_cr (replace_crlf text))))"

text \<open>\<open>TopicExtractionService.cleanSyllabusText\<close>\<close>

definition cleanSyllabusText :: "jsstring \<Rightarrow> jsstring" where
  "cleanSyllabusText text = take 8000 (normalize_ws text)"

text \<open>\<open>FileReaderService.cleanExtractedText\<close>\<close>

definition cleanExtractedText :: "jsstring \<Rightarrow> jsstring" where
  "cleanExtractedText text =
     (if text = [] then []
      else take 10000 (replace_nonprintable (normalize_ws text)))"

section \<open>Shapes of cleaned text\<close>

text \<open>The length of the run of line feeds a text starts with.\<close>

definition lf_run :: "jsstring \<Rightarrow> nat" where
  "lf_run s = length (takeWhile (\<lambda>x. x = LF) s)"

text \<open>No three line feeds in a row.\<close>

fun no_nl3 :: "jsstring \<Rightarrow> bool" where
  "no_nl3 [] = True"
| "no_nl3 (c # cs) = ((if c = LF then lf_run cs < 2 else True) \<and> no_nl3 cs)"

text \<open>No tab, and no space followed by a space.\<close>

fun no_blank_run :: "jsstring \<Rightarrow> bool" where
  "no_blank_run [] = True"
| "no_blank_run (c # cs) =
     ((if isBlank c then c = SP \<and> (cs = [] \<or> \<not> isBlank (hd cs)) else True) \<and> no_blank_run cs)"

text \<open>Sample texts: one with mixed line endings and blanks, one with a character
  outside printable ASCII between two spaces, one of 8001 code units.\<close>

definition messy_text :: jsstring where
  "messy_text =
     str ''  Week 1'' @ [CR, LF, CR, LF, CR, LF] @ str ''Intro '' @ [TAB] @ str '' to  CS  ''"

definition accented_text :: jsstring where
  "accented_text = [0x61, 0x20, 0xE9, 0x20, 0x62]"

definition long_text :: jsstring where
  "long_text = replicate 7999 0x61 @ [SP, 0x62]"

section \<open>JSON values\<close>

text \<open>
  A value produced by \<open>JSON.parse\<close> or \<open>response.json()\<close>. Of a number only the test
  against zero is used (truthiness). \<open>undefined\<close> is not a JSON value: an expression that
  may be \<open>undefined\<close> has type \<open>json option\<close>.
\<close>

datatype json =
    JNull
  | JBool bool
  | JNum rat
  | JStr jsstring
  | JArr "json list"
  | JObj "(jsstring \<times> json) list"

fun js_truthy :: "json option \<Rightarrow> bool" where
  "js_truthy None = False"
| "js_truthy (Some JNull) = False"
| "js_truthy (Some (JBool b)) = b"
| "js_truthy (Some (JNum n)) = (n \<noteq> 0)"
| "js_truthy (Some (JStr s)) = (s \<noteq> [])"
| "js_truthy (Some (JArr xs)) = True"
| "js_truthy (Some (JObj kvs)) = True"

text \<open>The errors the engine raises by itself; their messages are the engine's.\<close>

datatype engine_error =
    ReadPropertyOfNull jsstring
  | NotAFunction jsstring

text \<open>
  What the program takes from the JavaScript engine: the message of each engine error,
  \<open>JSON.parse\<close> (which converts its argument to a string first; \<open>Inl\<close> is the message of
  the SyntaxError), and the string conversion of a template literal.
\<close>

record js_engine =
  engine_message :: "engine_error \<Rightarrow> jsstring"
  JSON_parse :: "json \<Rightarrow> jsstring + json"
  ToString :: "json \<Rightarrow> jsstring"

text \<open>
  \<open>v.name\<close> for the property names the program reads (\<open>choices\<close>, \<open>message\<close>,
  \<open>content\<close>, \<open>topics\<close>, \<open>title\<close>, \<open>keywords\<close>, \<open>error\<close>), none of which is a
  built-in property of a string, number, boolean or array. Reading a property of \<open>null\<close>
  raises a TypeError.
\<close>

fun js_prop :: "js_engine \<Rightarrow> json \<Rightarrow> jsstring \<Rightarrow> jsstring + json option" where
  "js_prop eng JNull name = Inl (engine_message eng (ReadPropertyOfNull name))"
| "js_prop eng (JObj kvs) name = Inr (map_of kvs name)"
| "js_prop eng v name = Inr None"

text \<open>\<open>v?.name\<close>\<close>

fun js_opt_prop :: "json option \<Rightarrow> jsstring \<Rightarrow> json option" where
  "js_opt_prop (Some (JObj kvs)) name = map_of kvs name"
| "js_opt_prop v name = None"

text \<open>\<open>v?.[0]\<close>\<close>

fun js_opt_first :: "json option \<Rightarrow> json option" where
  "js_opt_first (Some (JArr xs)) = (case xs of [] \<Rightarrow> None | x # _ \<Rightarrow> Some x)"
| "js_opt_first (Some (JStr s)) = (case s of [] \<Rightarrow> None | c # _ \<Rightarrow> Some (JStr [c]))"
| "js_opt_first (Some (JObj kvs)) = map_of kvs (str ''0'')"
| "js_opt_first v = None"

section \<open>Topic extraction client\<close>

record ExtractedTopic =
  et_id :: jsstring
  et_title :: jsstring
  et_order :: int
  et_keywords :: "jsstring list option"

text \<open>
  \<open>TopicExtractionResponse\<close>. Of the metadata, \<open>totalTopics\<close> and \<open>processingTime\<close>
  are kept; \<open>confidence\<close> is a floating-point computation and is left out.
\<close>

record TopicExtractionResponse =
  success :: bool
  topics :: "ExtractedTopic list"
  error :: "jsstring option"
  totalTopics :: "nat option"
  processingTime :: "int option"

record OpenAIConfig =
  apiKey :: jsstring
  model :: jsstring
  maxTokens :: nat

text \<open>\<open>topic.keywords.filter((k) => typeof k === 'string')\<close>\<close>

fun string_entries :: "json list \<Rightarrow> jsstring list" where
  "string_entries [] = []"
| "string_entries (JStr s # ks) = s # string_entries ks"
| "string_entries (k # ks) = string_entries ks"

fun filter_keywords :: "json option \<Rightarrow> jsstring list option" where
  "filter_keywords (Some (JArr ks)) = Some (string_entries ks)"
| "filter_keywords v = None"

text \<open>The callback of \<open>parsed.topics.map\<close> in \<open>parseOpenAIResponse\<close>; \<open>index\<close> counts
  from 0. \<open>Inl\<close> is the message of the error thrown.\<close>

definition parse_topic :: "js_engine \<Rightarrow> json \<Rightarrow> nat \<Rightarrow> jsstring + ExtractedTopic" where
  "parse_topic eng topic index =
     (case js_prop eng topic (str ''title'') of
        Inl m \<Rightarrow> Inl m
      | Inr t \<Rightarrow>
          if \<not> js_truthy t
          then Inl (str ''Topic '' @ dec (index + 1) @ str '' missing title'')
          else (case t of
                  Some (JStr s) \<Rightarrow>
                    (case js_prop eng topic (str ''keywords'') of
                       Inl m \<Rightarrow> Inl m
                     | Inr ks \<Rightarrow>
                         Inr \<lparr>et_id = str ''topic-'' @ dec (index + 1),
                              et_title = trim s,
                              et_order = int (index + 1),
                              et_keywords = filter_keywords ks\<rparr>)
                | _ \<Rightarrow> Inl (engine_message eng (NotAFunction (str ''trim'')))))"

text \<open>\<open>Array.prototype.map\<close> with a callback that may throw: the first throw ends the
  loop.\<close>

fun map_topics :: "js_engine \<Rightarrow> nat \<Rightarrow> json list \<Rightarrow> jsstring + ExtractedTopic list" where
  "map_topics eng index [] = Inr []"
| "map_topics eng index (topic # rest) =
     (case parse_topic eng topic index of
        Inl m \<Rightarrow> Inl m
      | Inr t \<Rightarrow>
          (case map_topics eng (Suc index) rest of
             Inl m \<Rightarrow> Inl m
           | Inr ts \<Rightarrow> Inr (t # ts)))"

text \<open>The body of the \<open>try\<close> block of \<open>parseOpenAIResponse\<close>.\<close>

definition parse_body :: "js_engine \<Rightarrow> json \<Rightarrow> jsstring + ExtractedTopic list" where
  "parse_body eng data =
     (case js_prop eng data (str ''choices'') of
        Inl m \<Rightarrow> Inl m
      | Inr choices \<Rightarrow>
          (let content = js_opt_prop (js_opt_prop (js_opt_first choices) (str ''message''))
                           (str ''content'')
           in if \<not> js_truthy content then Inl (str ''No content in OpenAI response'')
              else (case JSON_parse eng (the content) of
                      Inl m \<Rightarrow> Inl m
                    | Inr parsed \<Rightarrow>
                        (case js_prop eng parsed (str ''topics'') of
                           Inl m \<Rightarrow> Inl m
                         | Inr (Some (JArr entries)) \<Rightarrow>
                             (case map_topics eng 0 entries of
                                Inl m \<Rightarrow> Inl m
                              | Inr ts \<Rightarrow>
                                  if length ts = 0
                                  then Inl (str ''No valid topics extracted'')
                                  else Inr ts)
                         | Inr _ \<Rightarrow>
                             Inl (str ''Invalid response format: topics array not found'')))))"

text \<open>\<open>TopicExtractionService.parseOpenAIResponse\<close>: every error of the body is
  caught and thrown again with a prefix.\<close>

definition parseOpenAIResponse :: "js_engine \<Rightarrow> json \<Rightarrow> jsstring + ExtractedTopic list" where
  "parseOpenAIResponse eng data =
     (case parse_body eng data of
        Inl m \<Rightarrow> Inl (str ''Failed to parse AI response: '' @ m)
      | Inr ts \<Rightarrow> Inr ts)"

text \<open>\<open>TopicExtractionService.getErrorMessage\<close>; the argument is \<open>error.message\<close>,
  \<open>None\<close> when it is undefined.\<close>

definition getErrorMessage :: "jsstring option \<Rightarrow> jsstring" where
  "getErrorMessage error_message =
     (let message = (case error_message of
                       None \<Rightarrow> str ''Unknown error''
                     | Some m \<Rightarrow> if m = [] then str ''Unknown error'' else m)
      in if js_includes message (str ''API key'')
         then str ''OpenAI API key is invalid or missing. Please check your configuration.''
         else if js_includes message (str ''quota'') \<or> js_includes message (str ''billing'')
         then str ''OpenAI API quota exceeded. Please check your billing settings.''
         else if js_includes message (str ''rate limit'')
         then str ''Too many requests. Please wait a moment and try again.''
         else if js_includes message (str ''network'') \<or> js_includes message (str ''fetch'')
         then str ''Network error. Please check your internet connection and try again.''
         else str ''Topic extraction failed: '' @ message)"

text \<open>
  The HTTP exchange. A request carries the key, the model, the token bound and the
  cleaned syllabus text (the rest of the body is fixed text around it). \<open>fetch\<close> either
  rejects with a message or answers; \<open>response.json()\<close> either rejects or yields a value.
\<close>

record http_request =
  authorization :: jsstring
  req_model :: jsstring
  max_tokens :: nat
  syllabus :: jsstring

record http_response =
  ok :: bool
  status :: nat
  json_body :: "jsstring + json"

datatype fetch_result = FetchRejects jsstring | FetchResponds http_response

definition extraction_failed :: "jsstring \<Rightarrow> TopicExtractionResponse" where
  "extraction_failed m =
     \<lparr>success = False, topics = [], error = Some m, totalTopics = None, processingTime = None\<rparr>"

text \<open>What follows the \<open>fetch\<close> inside the \<open>try\<close> block of \<open>extractTopics\<close>; \<open>Inl\<close> is
  the message of the error that reaches the \<open>catch\<close>.\<close>

definition handle_response :: "js_engine \<Rightarrow> http_response \<Rightarrow> jsstring + ExtractedTopic list" where
  "handle_response eng response =
     (if \<not> ok response then
        (let errorData = (case json_body response of Inl _ \<Rightarrow> JObj [] | Inr v \<Rightarrow> v)
         in case js_prop eng errorData (str ''error'') of
              Inl m \<Rightarrow> Inl m
            | Inr e \<Rightarrow>
                (let detail = js_opt_prop e (str ''message'')
                 in Inl (str ''OpenAI API error: '' @ dec (status response) @ str '' - '' @
                         (if js_truthy detail then ToString eng (the detail)
                          else str ''Unknown error''))))
      else (case json_body response of
              Inl m \<Rightarrow> Inl m
            | Inr data \<Rightarrow> parseOpenAIResponse eng data))"

text \<open>
  \<open>TopicExtractionService.extractTopics\<close>. The result is paired with the list of HTTP
  requests issued; \<open>startTime\<close> and \<open>endTime\<close> are the two readings of \<open>Date.now()\<close>.
\<close>

definition extractTopics ::
  "OpenAIConfig \<Rightarrow> js_engine \<Rightarrow> (http_request \<Rightarrow> fetch_result) \<Rightarrow> int \<Rightarrow> int \<Rightarrow> jsstring
     \<Rightarrow> TopicExtractionResponse \<times> http_request list" where
  "extractTopics config eng fetch startTime endTime syllabusText =
     (if apiKey config = [] then
        (extraction_failed (str ''OpenAI API key not configured''), [])
      else if syllabusText = [] \<or> length (trim syllabusText) < 50 then
        (extraction_failed
           (str ''Syllabus text is too short. Please provide more detailed content.''), [])
      else
        (let cleanedText = cleanSyllabusText syllabusText;
             request = \<lparr>authorization = apiKey config, req_model = model config,
                        max_tokens = maxTokens config, syllabus = cleanedText\<rparr>;
             outcome = (case fetch request of
                          FetchRejects m \<Rightarrow> Inl m
                        | FetchResponds response \<Rightarrow> handle_response eng response)
         in (case outcome of
               Inl m \<Rightarrow> extraction_failed (getErrorMessage (Some m))
             | Inr ts \<Rightarrow>
                 \<lparr>success = True, topics = ts, error = None,
                  totalTopics = Some (length ts),
                  processingTime = Some (endTime - startTime)\<rparr>,
             [request])))"

section \<open>Backend store\<close>

text \<open>
  The hosted backend is an external service. It is modelled as two tables; every call
  the topic service makes to it either succeeds, returns an error object (of which the
  code is read) or throws, as the environment decides per call site. A call that does
  not succeed leaves the tables as they were. Row-level security of the backend is not
  modelled.
\<close>

record Course =
  c_id :: jsstring
  c_userId :: jsstring
  c_name :: jsstring
  c_endDate :: jsstring
  c_description :: "jsstring option"
  c_syllabusUrl :: "jsstring option"
  c_topicsExtracted :: bool
  c_createdAt :: jsstring
  c_updatedAt :: jsstring

record Topic =
  t_id :: jsstring
  t_courseId :: jsstring
  t_title :: jsstring
  t_content :: jsstring
  t_orderIndex :: int
  t_createdAt :: jsstring

text \<open>\<open>Omit<Topic, 'id' | 'createdAt'>\<close>\<close>

record TopicData =
  d_courseId :: jsstring
  d_title :: jsstring
  d_content :: jsstring
  d_orderIndex :: int

text \<open>A row handed to \<open>insert\<close>: the backend adds the identifier.\<close>

record TopicInsert =
  n_courseId :: jsstring
  n_title :: jsstring
  n_content :: jsstring
  n_orderIndex :: int
  n_createdAt :: jsstring

record database =
  db_courses :: "Course list"
  db_topics :: "Topic list"

datatype call =
    AuthGetUser
  | VerifyGetUser
  | SelectOwnedCourse
  | DeleteCourseTopics
  | InsertTopics
  | UpdateCourse
  | SelectTopics
  | InsertTopic
  | SelectTopicWithCourse
  | DeleteTopicRow

datatype backend_error = QueryError "jsstring option"

datatype outcome = Succeeds | Fails backend_error | Throws

text \<open>
  The environment of one service operation: the user of the session, the outcome of
  each backend call, the successive readings of \<open>new Date().toISOString()\<close>, and the
  identifiers the backend gives to the rows it inserts.
\<close>

record backend_env =
  session_user :: "jsstring option"
  outcome_of :: "call \<Rightarrow> outcome"
  clock :: "nat \<Rightarrow> jsstring"
  new_id :: "nat \<Rightarrow> jsstring"

datatype error_details = ErrorObject backend_error | Exception

record ServiceError =
  se_message :: jsstring
  se_code :: "jsstring option"
  se_details :: "error_details option"

record 'a ServiceResponse =
  sr_data :: "'a option"
  sr_error :: "ServiceError option"
  sr_success :: bool

definition service_ok :: "'a \<Rightarrow> 'a ServiceResponse" where
  "service_ok v = \<lparr>sr_data = Some v, sr_error = None, sr_success = True\<rparr>"

definition service_denied :: "string \<Rightarrow> 'a ServiceResponse" where
  "service_denied m =
     \<lparr>sr_data = None,
      sr_error = Some \<lparr>se_message = str m, se_code = None, se_details = None\<rparr>,
      sr_success = False\<rparr>"

definition service_failed :: "string \<Rightarrow> backend_error \<Rightarrow> 'a ServiceResponse" where
  "service_failed m e =
     \<lparr>sr_data = None,
      sr_error = Some \<lparr>se_message = str m,
                       se_code = (case e of QueryError code \<Rightarrow> code),
                       se_details = Some (ErrorObject e)\<rparr>,
      sr_success = False\<rparr>"

definition service_network_error :: "string \<Rightarrow> 'a ServiceResponse" where
  "service_network_error m =
     \<lparr>sr_data = None,
      sr_error = Some \<lparr>se_message = str m, se_code = None, se_details = Some Exception\<rparr>,
      sr_success = False\<rparr>"

section \<open>Topic persistence gateway\<close>

text \<open>\<open>TopicService.getCurrentUserId\<close>, called at \<open>site\<close>: \<open>user?.id || null\<close>, and
  \<open>null\<close> when the call throws.\<close>

definition getCurrentUserId :: "backend_env \<Rightarrow> call \<Rightarrow> jsstring option" where
  "getCurrentUserId env site =
     (case outcome_of env site of
        Succeeds \<Rightarrow>
          (case session_user env of
             None \<Rightarrow> None
           | Some uid \<Rightarrow> if uid = [] then None else Some uid)
      | _ \<Rightarrow> None)"

text \<open>\<open>TopicService.verifyCourseOwnership\<close>; \<open>.single()\<close> is an error unless exactly
  one row matches.\<close>

definition verifyCourseOwnership :: "backend_env \<Rightarrow> database \<Rightarrow> jsstring \<Rightarrow> bool" where
  "verifyCourseOwnership env db courseId =
     (case getCurrentUserId env VerifyGetUser of
        None \<Rightarrow> False
      | Some userId \<Rightarrow>
          (case outcome_of env SelectOwnedCourse of
             Succeeds \<Rightarrow>
               (case filter (\<lambda>c. c_id c = courseId \<and> c_userId c = userId) (db_courses db) of
                  [course] \<Rightarrow> True
                | _ \<Rightarrow> False)
           | _ \<Rightarrow> False))"

text \<open>The callback of \<open>extractedTopics.map\<close> in \<open>saveTopicsForCourse\<close>, from
  \<open>index\<close> on.\<close>

fun topicsToInsert :: "backend_env \<Rightarrow> jsstring \<Rightarrow> nat \<Rightarrow> ExtractedTopic list \<Rightarrow> TopicInsert list" where
  "topicsToInsert env courseId index [] = []"
| "topicsToInsert env courseId index (topic # rest) =
     \<lparr>n_courseId = courseId,
      n_title = et_title topic,
      n_content = (case et_keywords topic of
                     Some ks \<Rightarrow> js_join (str '', '') ks
                   | None \<Rightarrow> []),
      n_orderIndex = (if et_order topic \<noteq> 0 then et_order topic else int (index + 1)),
      n_createdAt = clock env index\<rparr>
     # topicsToInsert env courseId (Suc index) rest"

text \<open>The rows the backend stores for an \<open>insert\<close>: row \<open>k\<close> gets \<open>new_id env k\<close>.\<close>

fun inserted_rows :: "backend_env \<Rightarrow> nat \<Rightarrow> TopicInsert list \<Rightarrow> Topic list" where
  "inserted_rows env k [] = []"
| "inserted_rows env k (row # rest) =
     \<lparr>t_id = new_id env k, t_courseId = n_courseId row, t_title = n_title row,
      t_content = n_content row, t_orderIndex = n_orderIndex row,
      t_createdAt = n_createdAt row\<rparr>
     # inserted_rows env (Suc k) rest"

text \<open>\<open>from('topics').delete().eq('courseId', courseId)\<close>\<close>

definition delete_course_topics :: "database \<Rightarrow> jsstring \<Rightarrow> database" where
  "delete_course_topics db courseId =
     db\<lparr>db_topics := filter (\<lambda>t. t_courseId t \<noteq> courseId) (db_topics db)\<rparr>"

text \<open>\<open>from('courses').update({topicsExtracted: true, updatedAt: ...}).eq('id', courseId)\<close>\<close>

definition mark_topics_extracted :: "database \<Rightarrow> jsstring \<Rightarrow> jsstring \<Rightarrow> database" where
  "mark_topics_extracted db courseId now =
     db\<lparr>db_courses :=
          map (\<lambda>c. if c_id c = courseId
                    then c\<lparr>c_topicsExtracted := True, c_updatedAt := now\<rparr>
                    else c)
              (db_courses db)\<rparr>"

text \<open>\<open>TopicService.saveTopicsForCourse\<close>: the response and the tables afterwards.\<close>

definition saveTopicsForCourse ::
  "backend_env \<Rightarrow> database \<Rightarrow> jsstring \<Rightarrow> ExtractedTopic list
     \<Rightarrow> Topic list ServiceResponse \<times> database" where
  "saveTopicsForCourse env db courseId extractedTopics =
     (case getCurrentUserId env AuthGetUser of
        None \<Rightarrow> (service_denied ''User not authenticated'', db)
      | Some userId \<Rightarrow>
          if \<not> verifyCourseOwnership env db courseId
          then (service_denied ''Course not found or access denied'', db)
          else
            (case outcome_of env DeleteCourseTopics of
               Throws \<Rightarrow> (service_network_error ''Network error while saving topics'', db)
             | Fails deleteError \<Rightarrow>
                 (service_failed ''Failed to clear existing topics'' deleteError, db)
             | Succeeds \<Rightarrow>
                 (let db1 = delete_course_topics db courseId;
                      rows = topicsToInsert env courseId 0 extractedTopics;
                      now = clock env (length extractedTopics)
                  in if length rows = 0 then
                       (case outcome_of env UpdateCourse of
                          Throws \<Rightarrow>
                            (service_network_error ''Network error while saving topics'', db1)
                        | Fails updateError \<Rightarrow> (service_ok [], db1)
                        | Succeeds \<Rightarrow> (service_ok [], mark_topics_extracted db1 courseId now))
                     else
                       (case outcome_of env InsertTopics of
                          Throws \<Rightarrow>
                            (service_network_error ''Network error while saving topics'', db1)
                        | Fails err \<Rightarrow> (service_failed ''Failed to save topics'' err, db1)
                        | Succeeds \<Rightarrow>
                            (let data = inserted_rows env 0 rows;
                                 db2 = db1\<lparr>db_topics := db_topics db1 @ data\<rparr>
                             in case outcome_of env UpdateCourse of
                                  Throws \<Rightarrow>
                                    (service_network_error
                                       ''Network error while saving topics'', db2)
                                | Fails updateError \<Rightarrow> (service_ok data, db2)
                                | Succeeds \<Rightarrow>
                                    (service_ok data,
                                     mark_topics_extracted db2 courseId now))))))"

text \<open>\<open>TopicService.getTopicsForCourse\<close>. Rows of equal \<open>orderIndex\<close> come in table
  order.\<close>

definition getTopicsForCourse ::
  "backend_env \<Rightarrow> database \<Rightarrow> jsstring \<Rightarrow> Topic list ServiceResponse" where
  "getTopicsForCourse env db courseId =
     (case getCurrentUserId env AuthGetUser of
        None \<Rightarrow> service_denied ''User not authenticated''
      | Some userId \<Rightarrow>
          if \<not> verifyCourseOwnership env db courseId
          then service_denied ''Course not found or access denied''
          else
            (case outcome_of env SelectTopics of
               Throws \<Rightarrow> service_network_error ''Network error while fetching topics''
             | Fails err \<Rightarrow> service_failed ''Failed to fetch topics'' err
             | Succeeds \<Rightarrow>
                 service_ok (sort_key t_orderIndex
                               (filter (\<lambda>t. t_courseId t = courseId) (db_topics db)))))"

text \<open>\<open>TopicService.createTopic\<close>; \<open>topicData\<close> is title, content and orderIndex.\<close>

definition createTopic ::
  "backend_env \<Rightarrow> database \<Rightarrow> jsstring \<Rightarrow> jsstring \<Rightarrow> jsstring \<Rightarrow> int
     \<Rightarrow> Topic ServiceResponse \<times> database" where
  "createTopic env db courseId title content orderIndex =
     (case getCurrentUserId env AuthGetUser of
        None \<Rightarrow> (service_denied ''User not authenticated'', db)
      | Some userId \<Rightarrow>
          if \<not> verifyCourseOwnership env db courseId
          then (service_denied ''Course not found or access denied'', db)
          else
            (case outcome_of env InsertTopic of
               Throws \<Rightarrow> (service_network_error ''Network error while creating topic'', db)
             | Fails err \<Rightarrow> (service_failed ''Failed to create topic'' err, db)
             | Succeeds \<Rightarrow>
                 (let data = \<lparr>t_id = new_id env 0, t_courseId = courseId, t_title = title,
                              t_content = content, t_orderIndex = orderIndex,
                              t_createdAt = clock env 0\<rparr>
                  in (service_ok data, db\<lparr>db_topics := db_topics db @ [data]\<rparr>))))"

text \<open>The rows of \<open>select('courseId, courses!inner(userId)').eq('id', topicId)\<close>: each
  topic of that identifier joined with its course.\<close>

definition topic_with_course :: "database \<Rightarrow> jsstring \<Rightarrow> (Topic \<times> Course) list" where
  "topic_with_course db topicId =
     concat (map (\<lambda>t. map (\<lambda>c. (t, c)) (filter (\<lambda>c. c_id c = t_courseId t) (db_courses db)))
                 (filter (\<lambda>t. t_id t = topicId) (db_topics db)))"

text \<open>\<open>TopicService.deleteTopic\<close>\<close>

definition deleteTopic ::
  "backend_env \<Rightarrow> database \<Rightarrow> jsstring \<Rightarrow> bool ServiceResponse \<times> database" where
  "deleteTopic env db topicId =
     (case getCurrentUserId env AuthGetUser of
        None \<Rightarrow> (service_denied ''User not authenticated'', db)
      | Some userId \<Rightarrow>
          (case outcome_of env SelectTopicWithCourse of
             Throws \<Rightarrow> (service_network_error ''Network error while deleting topic'', db)
           | Fails e \<Rightarrow> (service_denied ''Topic not found or access denied'', db)
           | Succeeds \<Rightarrow>
               (case topic_with_course db topicId of
                  [(topic, course)] \<Rightarrow>
                    if c_userId course \<noteq> userId
                    then (service_denied ''Topic not found or access denied'', db)
                    else
                      (case outcome_of env DeleteTopicRow of
                         Throws \<Rightarrow>
                           (service_network_error ''Network error while deleting topic'', db)
                       | Fails err \<Rightarrow> (service_failed ''Failed to delete topic'' err, db)
                       | Succeeds \<Rightarrow>
                           (service_ok True,
                            db\<lparr>db_topics := filter (\<lambda>t. t_id t \<noteq> topicId) (db_topics db)\<rparr>))
                | _ \<Rightarrow> (service_denied ''Topic not found or access denied'', db))))"

text \<open>\<open>TopicService.topicToExtractedTopic\<close>\<close>

definition topicToExtractedTopic :: "Topic \<Rightarrow> ExtractedTopic" where
  "topicToExtractedTopic topic =
     \<lparr>et_id = t_id topic,
      et_title = t_title topic,
      et_order = t_orderIndex topic,
      et_keywords =
        Some (if t_content topic \<noteq> []
              then filter (\<lambda>k. trim k \<noteq> []) (js_split (str '', '') (t_content topic))
              else [])\<rparr>"

text \<open>\<open>TopicService.extractedTopicToTopic\<close>\<close>

definition extractedTopicToTopic :: "ExtractedTopic \<Rightarrow> jsstring \<Rightarrow> TopicData" where
  "extractedTopicToTopic extractedTopic courseId =
     \<lparr>d_courseId = courseId,
      d_title = et_title extractedTopic,
      d_content = (case et_keywords extractedTopic of
                     Some ks \<Rightarrow> js_join (str '', '') ks
                   | None \<Rightarrow> []),
      d_orderIndex = et_order extractedTopic\<rparr>"

text \<open>The row the backend holds for topic data stored under an identifier and a
  creation time.\<close>

definition stored_topic :: "jsstring \<Rightarrow> jsstring \<Rightarrow> TopicData \<Rightarrow> Topic" where
  "stored_topic ident created d =
     \<lparr>t_id = ident, t_courseId = d_courseId d, t_title = d_title d,
      t_content = d_content d, t_orderIndex = d_orderIndex d, t_createdAt = created\<rparr>"

section \<open>Review screen state\<close>

text \<open>\<open>addNewTopic\<close> of \<open>ReviewTopicsScreen\<close>: the new list of topics; \<open>now\<close> is
  \<open>Date.now()\<close>.\<close>

definition addNewTopic :: "nat \<Rightarrow> ExtractedTopic list \<Rightarrow> ExtractedTopic list" where
  "addNewTopic now topics_state =
     topics_state @
       [\<lparr>et_id = str ''topic-'' @ dec now,
         et_title = str ''New Topic'',
         et_order = int (length topics_state + 1),
         et_keywords = Some []\<rparr>]"

text \<open>\<open>filtered.map((topic, index) => ({...topic, order: index + 1}))\<close>, from \<open>index\<close>
  on.\<close>

fun reorder :: "nat \<Rightarrow> ExtractedTopic list \<Rightarrow> ExtractedTopic list" where
  "reorder index [] = []"
| "reorder index (topic # rest) = topic\<lparr>et_order := int (index + 1)\<rparr> # reorder (Suc index) rest"

text \<open>The state update of \<open>removeTopic\<close>, once the removal is confirmed.\<close>

definition removeTopic :: "jsstring \<Rightarrow> ExtractedTopic list \<Rightarrow> ExtractedTopic list" where
  "removeTopic topicId prevTopics =
     reorder 0 (filter (\<lambda>topic. et_id topic \<noteq> topicId) prevTopics)"

text \<open>The order indices are densely packed: they are \<open>1, \<dots>, n\<close> in list order.\<close>

definition dense_orders :: "int list \<Rightarrow> bool" where
  "dense_orders os \<longleftrightarrow> os = map int [1..<Suc (length os)]"

text \<open>The order indices of the stored topics of a course, as \<open>getTopicsForCourse\<close>
  lists them.\<close>

definition course_orders :: "database \<Rightarrow> jsstring \<Rightarrow> int list" where
  "course_orders db courseId =
     map t_orderIndex
       (sort_key t_orderIndex (filter (\<lambda>t. t_courseId t = courseId) (db_topics db)))"

section \<open>Sample inputs\<close>

text \<open>An engine whose \<open>JSON.parse\<close> reads two texts: \<open>{"topics":[]}\<close> and
  \<open>{"topics":[{"title":"Variables"},{"title":"Loops","keywords":["for",2]}]}\<close>.\<close>

definition quoted :: "string \<Rightarrow> jsstring" where
  "quoted s = [0x22] @ str s @ [0x22]"

definition empty_topics_text :: jsstring where
  "empty_topics_text = str ''{'' @ quoted ''topics'' @ str '':[]}''"

definition two_topics_text :: jsstring where
  "two_topics_text =
     str ''{'' @ quoted ''topics'' @ str '':[{'' @ quoted ''title'' @ str '':'' @
     quoted ''Variables'' @ str ''},{'' @ quoted ''title'' @ str '':'' @ quoted ''Loops'' @
     str '','' @ quoted ''keywords'' @ str '':['' @ quoted ''for'' @ str '',2]}]}''"

definition two_topics :: "json list" where
  "two_topics =
     [JObj [(str ''title'', JStr (str ''Variables''))],
      JObj [(str ''title'', JStr (str ''Loops'')),
            (str ''keywords'', JArr [JStr (str ''for''), JNum 2])]]"

definition sample_JSON_parse :: "json \<Rightarrow> jsstring + json" where
  "sample_JSON_parse v =
     (if v = JStr empty_topics_text then Inr (JObj [(str ''topics'', JArr [])])
      else if v = JStr two_topics_text then Inr (JObj [(str ''topics'', JArr two_topics)])
      else Inl (str ''Unexpected token''))"

definition sample_ToString :: "json \<Rightarrow> jsstring" where
  "sample_ToString v = (case v of JStr s \<Rightarrow> s | _ \<Rightarrow> str ''[object Object]'')"

definition sample_engine_message :: "engine_error \<Rightarrow> jsstring" where
  "sample_engine_message e = str ''TypeError''"

definition sample_engine :: js_engine where
  "sample_engine =
     \<lparr>engine_message = sample_engine_message,
      JSON_parse = sample_JSON_parse,
      ToString = sample_ToString\<rparr>"

definition sample_config :: OpenAIConfig where
  "sample_config =
     \<lparr>apiKey = str ''sk-test'', model = str ''gpt-3.5-turbo'', maxTokens = 2000\<rparr>"

definition offline_fetch :: "http_request \<Rightarrow> fetch_result" where
  "offline_fetch request = FetchRejects (str ''Network request failed'')"

text \<open>A successful answer of the provider whose first choice carries \<open>content\<close>.\<close>

definition topics_response :: "jsstring \<Rightarrow> http_response" where
  "topics_response content =
     \<lparr>ok = True, status = 200,
      json_body = Inr (JObj [(str ''choices'',
                    JArr [JObj [(str ''message'', JObj [(str ''content'', JStr content)])]])])\<rparr>"

definition empty_topics_fetch :: "http_request \<Rightarrow> fetch_result" where
  "empty_topics_fetch request = FetchResponds (topics_response empty_topics_text)"

definition two_topics_fetch :: "http_request \<Rightarrow> fetch_result" where
  "two_topics_fetch request = FetchResponds (topics_response two_topics_text)"

definition sample_syllabus :: jsstring where
  "sample_syllabus = str ''Week 1: Variables and types. Week 2: Control structures and loops.''"

definition numeric_keywords_topic :: json where
  "numeric_keywords_topic =
     JObj [(str ''title'', JStr (str ''Loops'')), (str ''keywords'', JArr [JNum 2, JNull])]"

definition mixed_keywords_topic :: json where
  "mixed_keywords_topic =
     JObj [(str ''title'', JStr (str ''Loops'')),
           (str ''keywords'', JArr [JStr (str ''a''), JNum 2, JStr (str ''b''), JNull])]"

text \<open>\<open>typeof k === 'string'\<close>\<close>

fun is_string :: "json \<Rightarrow> bool" where
  "is_string (JStr s) = True"
| "is_string v = False"

text \<open>A course of user \<open>u1\<close> with three stored topics, and two environments.\<close>

definition sample_course :: Course where
  "sample_course =
     \<lparr>c_id = str ''c1'', c_userId = str ''u1'', c_name = str ''CS 101'',
      c_endDate = str ''2025-12-15'', c_description = None, c_syllabusUrl = None,
      c_topicsExtracted = True, c_createdAt = str ''2025-01-01T00:00:00.000Z'',
      c_updatedAt = str ''2025-01-02T00:00:00.000Z''\<rparr>"

definition sample_topic :: "string \<Rightarrow> string \<Rightarrow> int \<Rightarrow> Topic" where
  "sample_topic ident title_text position =
     \<lparr>t_id = str ident, t_courseId = str ''c1'', t_title = str title_text, t_content = [],
      t_orderIndex = position, t_createdAt = str ''2025-01-02T00:00:00.000Z''\<rparr>"

definition sample_db :: database where
  "sample_db =
     \<lparr>db_courses = [sample_course],
      db_topics = [sample_topic ''t1'' ''Variables'' 1, sample_topic ''t2'' ''Loops'' 2,
                   sample_topic ''t3'' ''Functions'' 3]\<rparr>"

definition all_succeed :: "call \<Rightarrow> outcome" where
  "all_succeed site = Succeeds"

definition insert_fails :: "call \<Rightarrow> outcome" where
  "insert_fails site = (if site = InsertTopics then Fails (QueryError None) else Succeeds)"

definition sample_clock :: "nat \<Rightarrow> jsstring" where
  "sample_clock k = str ''2025-02-01T00:00:00.000Z''"

definition sample_new_id :: "nat \<Rightarrow> jsstring" where
  "sample_new_id k = str ''n'' @ dec k"

definition sample_env :: backend_env where
  "sample_env =
     \<lparr>session_user = Some (str ''u1''), outcome_of = all_succeed,
      clock = sample_clock, new_id = sample_new_id\<rparr>"

definition insert_fails_env :: backend_env where
  "insert_fails_env =
     \<lparr>session_user = Some (str ''u1''), outcome_of = insert_fails,
      clock = sample_clock, new_id = sample_new_id\<rparr>"

text \<open>The same course before any save, and environments in which the course update or
  the delete returns an error.\<close>

definition unflagged_db :: database where
  "unflagged_db =
     \<lparr>db_courses = [sample_course\<lparr>c_topicsExtracted := False\<rparr>],
      db_topics = [sample_topic ''t1'' ''Variables'' 1, sample_topic ''t2'' ''Loops'' 2,
                   sample_topic ''t3'' ''Functions'' 3]\<rparr>"

definition update_fails :: "call \<Rightarrow> outcome" where
  "update_fails site = (if site = UpdateCourse then Fails (QueryError None) else Succeeds)"

definition delete_fails :: "call \<Rightarrow> outcome" where
  "delete_fails site = (if site = DeleteCourseTopics then Fails (QueryError None) else Succeeds)"

definition update_fails_env :: backend_env where
  "update_fails_env =
     \<lparr>session_user = Some (str ''u1''), outcome_of = update_fails,
      clock = sample_clock, new_id = sample_new_id\<rparr>"

definition delete_fails_env :: backend_env where
  "delete_fails_env =
     \<lparr>session_user = Some (str ''u1''), outcome_of = delete_fails,
      clock = sample_clock, new_id = sample_new_id\<rparr>"

definition topic_X :: ExtractedTopic where
  "topic_X = \<lparr>et_id = str ''topic-1'', et_title = str ''X'', et_order = 1, et_keywords = None\<rparr>"

definition topic_Y :: ExtractedTopic where
  "topic_Y = \<lparr>et_id = str ''topic-2'', et_title = str ''Y'', et_order = 2, et_keywords = None\<rparr>"

definition blank_keyword_topic :: ExtractedTopic where
  "blank_keyword_topic =
     \<lparr>et_id = str ''topic-1'', et_title = str ''Loops'', et_order = 1,
      et_keywords = Some [str '' '']\<rparr>"

definition two_keywords_topic :: ExtractedTopic where
  "two_keywords_topic =
     \<lparr>et_id = str ''topic-1'', et_title = str ''Loops'', et_order = 1,
      et_keywords = Some [str ''for'', str ''do while'']\<rparr>"

abbreviation comma_space :: jsstring where "comma_space \<equiv> [0x2C, 0x20]"

definition three_topics :: "ExtractedTopic list" where
  "three_topics =
     [\<lparr>et_id = str ''topic-1'', et_title = str ''Variables'', et_order = 1, et_keywords = None\<rparr>,
      \<lparr>et_id = str ''topic-2'', et_title = str ''Loops'', et_order = 2, et_keywords = None\<rparr>,
      \<lparr>et_id = str ''topic-3'', et_title = str ''Functions'', et_order = 3, et_keywords = None\<rparr>]"

section \<open>Input validation of the extraction client\<close>

lemma trim_sample: "trim (str '' CS 101 syllabus  '') = str ''CS 101 syllabus''"
  by (simp add: trim_def str_def isWhiteSpace_def)

text \<open>
  Claim C6. A syllabus text whose trimmed length is below 50 is rejected: the result has
  \<open>success = False\<close>, no topics and an error message (the missing-key message when no
  key is configured, the too-short message otherwise), and no HTTP request is issued.
\<close>

theorem extractTopics_short_text:
  assumes "length (trim syllabusText) < 50"
  shows "extractTopics config eng fetch startTime endTime syllabusText =
           (\<lparr>success = False, topics = [],
             error = Some (if apiKey config = [] then str ''OpenAI API key not configured''
                           else str ''Syllabus text is too short. Please provide more detailed content.''),
             totalTopics = None, processingTime = None\<rparr>, [])"
  using assms by (simp add: extractTopics_def extraction_failed_def)

theorem extractTopics_short_text_witness:
  "length (trim (str '' CS 101 syllabus  '')) < 50 \<and>
   extractTopics sample_config sample_engine offline_fetch 0 1 (str '' CS 101 syllabus  '') =
     (\<lparr>success = False, topics = [],
       error = Some (str ''Syllabus text is too short. Please provide more detailed content.''),
       totalTopics = None, processingTime = None\<rparr>, [])"
proof -
  have h: "length (trim (str '' CS 101 syllabus  '')) < 50"
    by (simp add: trim_sample) (simp add: str_def)
  have k: "apiKey sample_config \<noteq> []"
    by (simp add: sample_config_def str_def)
  show ?thesis
    using h k extractTopics_short_text [OF h, of sample_config sample_engine offline_fetch 0 1]
    by simp
qed

section \<open>Parsing the provider response\<close>

lemma parse_topic_string_title:
  assumes "js_prop eng topic (str ''title'') = Inr (Some (JStr s))" and "s \<noteq> []"
  shows "parse_topic eng topic index =
           Inr \<lparr>et_id = str ''topic-'' @ dec (index + 1), et_title = trim s,
                et_order = int (index + 1),
                et_keywords = filter_keywords (js_opt_prop (Some topic) (str ''keywords''))\<rparr>"
proof -
  from assms(1) obtain kvs where t: "topic = JObj kvs"
    by (cases topic) auto
  show ?thesis using assms by (simp add: parse_topic_def t)
qed

lemma map_topics_titled:
  assumes "\<forall>e \<in> set entries. \<exists>s. js_prop eng e (str ''title'') = Inr (Some (JStr s)) \<and> s \<noteq> []"
  shows "\<exists>ts. map_topics eng k entries = Inr ts \<and> length ts = length entries \<and>
           (\<forall>i < length entries.
              et_id (ts ! i) = str ''topic-'' @ dec (k + i + 1) \<and>
              et_order (ts ! i) = int (k + i + 1) \<and>
              (\<exists>s. js_prop eng (entries ! i) (str ''title'') = Inr (Some (JStr s)) \<and>
                   et_title (ts ! i) = trim s))"
  using assms
proof (induction entries arbitrary: k)
  case Nil
  then show ?case by simp
next
  case (Cons e entries)
  from Cons.prems obtain s where s: "js_prop eng e (str ''title'') = Inr (Some (JStr s))" "s \<noteq> []"
    by auto
  from Cons.prems
  have "\<forall>e \<in> set entries. \<exists>s. js_prop eng e (str ''title'') = Inr (Some (JStr s)) \<and> s \<noteq> []"
    by simp
  from Cons.IH [OF this, of "Suc k"] obtain ts where
    ts: "map_topics eng (Suc k) entries = Inr ts" "length ts = length entries"
      "\<forall>i < length entries.
              et_id (ts ! i) = str ''topic-'' @ dec (Suc k + i + 1) \<and>
              et_order (ts ! i) = int (Suc k + i + 1) \<and>
              (\<exists>s. js_prop eng (entries ! i) (str ''title'') = Inr (Some (JStr s)) \<and>
                   et_title (ts ! i) = trim s)"
    by blast
  let ?t = "\<lparr>et_id = str ''topic-'' @ dec (k + 1), et_title = trim s,
                et_order = int (k + 1),
                et_keywords = filter_keywords (js_opt_prop (Some e) (str ''keywords''))\<rparr>"
  have m: "map_topics eng k (e # entries) = Inr (?t # ts)"
    by (simp add: parse_topic_string_title [OF s] ts(1))
  have "\<forall>i < length (e # entries).
              et_id ((?t # ts) ! i) = str ''topic-'' @ dec (k + i + 1) \<and>
              et_order ((?t # ts) ! i) = int (k + i + 1) \<and>
              (\<exists>s. js_prop eng ((e # entries) ! i) (str ''title'') = Inr (Some (JStr s)) \<and>
                   et_title ((?t # ts) ! i) = trim s)"
  proof (intro allI impI)
    fix i assume i: "i < length (e # entries)"
    show "et_id ((?t # ts) ! i) = str ''topic-'' @ dec (k + i + 1) \<and>
              et_order ((?t # ts) ! i) = int (k + i + 1) \<and>
              (\<exists>s. js_prop eng ((e # entries) ! i) (str ''title'') = Inr (Some (JStr s)) \<and>
                   et_title ((?t # ts) ! i) = trim s)"
    proof (cases i)
      case 0
      then show ?thesis using s by simp
    next
      case (Suc j)
      with i have "j < length entries" by simp
      with ts(3) Suc show ?thesis by simp
    qed
  qed
  with m ts(2) show ?case by simp
qed

lemma sample_syllabus_long: "50 \<le> length (trim sample_syllabus)"
  by (simp add: sample_syllabus_def trim_def str_def isWhiteSpace_def)

lemma sample_key: "apiKey sample_config \<noteq> []"
  by (simp add: sample_config_def str_def)

text \<open>
  Claim C1, as stated, fails for a topics array of no entries: the content
  \<open>{"topics":[]}\<close> parses to an object with a topics array of 0 entries, each of which
  (vacuously) has a title, and \<open>extractTopics\<close> answers \<open>success = False\<close>.
\<close>

theorem extractTopics_no_entries:
  "JSON_parse sample_engine (JStr empty_topics_text) = Inr (JObj [(str ''topics'', JArr [])]) \<and>
   fst (extractTopics sample_config sample_engine empty_topics_fetch 0 1 sample_syllabus) =
     \<lparr>success = False, topics = [],
      error = Some (str ''Topic extraction failed: Failed to parse AI response: No valid topics extracted''),
      totalTopics = None, processingTime = None\<rparr>"
proof -
  have p: "JSON_parse sample_engine (JStr empty_topics_text) = Inr (JObj [(str ''topics'', JArr [])])"
    by (simp add: sample_engine_def sample_JSON_parse_def)
  have c: "js_opt_prop (js_opt_prop (js_opt_first (Some (JArr [JObj [(str ''message'',
             JObj [(str ''content'', JStr empty_topics_text)])]]))) (str ''message''))
             (str ''content'') = Some (JStr empty_topics_text)"
    by simp
  have ne: "empty_topics_text \<noteq> []"
    by (simp add: empty_topics_text_def str_def)
  have b: "parse_body sample_engine (JObj [(str ''choices'',
             JArr [JObj [(str ''message'', JObj [(str ''content'', JStr empty_topics_text)])]])]) =
           Inl (str ''No valid topics extracted'')"
    unfolding parse_body_def by (simp add: c p ne)
  have h: "handle_response sample_engine (topics_response empty_topics_text) =
             Inl (str ''Failed to parse AI response: '' @ str ''No valid topics extracted'')"
    by (simp add: handle_response_def topics_response_def parseOpenAIResponse_def b)
  have g: "getErrorMessage (Some (str ''Failed to parse AI response: '' @ str ''No valid topics extracted'')) =
             str ''Topic extraction failed: Failed to parse AI response: No valid topics extracted''"
    by (simp add: getErrorMessage_def str_def)
  have t: "\<not> (sample_syllabus = [] \<or> length (trim sample_syllabus) < 50)"
    using sample_syllabus_long by (auto simp: trim_def)
  have "fst (extractTopics sample_config sample_engine empty_topics_fetch 0 1 sample_syllabus) =
          extraction_failed (str ''Topic extraction failed: Failed to parse AI response: No valid topics extracted'')"
    using sample_key t by (simp add: extractTopics_def Let_def empty_topics_fetch_def h g)
  with p show ?thesis by (simp add: extraction_failed_def)
qed

text \<open>
  Claim C1, amended. With a key configured, a syllabus text of trimmed length at least
  50 and an HTTP answer with \<open>ok\<close> status whose first choice's message content is a
  non-empty string that parses to an object with a topics array of N \<ge> 1 entries, each
  with a non-empty string title, \<open>extractTopics\<close> succeeds with exactly N topics in array
  order; the i-th (1-based) has identifier \<open>topic-i\<close>, order i and the trimmed title of
  the i-th entry.
\<close>

theorem extractTopics_numbers_topics:
  assumes key: "apiKey config \<noteq> []"
    and long: "50 \<le> length (trim syllabusText)"
    and resp: "fetch \<lparr>authorization = apiKey config, req_model = model config,
                      max_tokens = maxTokens config,
                      syllabus = cleanSyllabusText syllabusText\<rparr> = FetchResponds response"
    and ok: "ok response" "json_body response = Inr data"
    and choices: "js_prop eng data (str ''choices'') = Inr choices"
    and content: "js_opt_prop (js_opt_prop (js_opt_first choices) (str ''message''))
                    (str ''content'') = Some (JStr c)" "c \<noteq> []"
    and parsed: "JSON_parse eng (JStr c) = Inr parsed"
      "js_prop eng parsed (str ''topics'') = Inr (Some (JArr entries))"
    and entries: "entries \<noteq> []"
      "\<forall>e \<in> set entries. \<exists>s. js_prop eng e (str ''title'') = Inr (Some (JStr s)) \<and> s \<noteq> []"
  shows "\<exists>r requests.
           extractTopics config eng fetch startTime endTime syllabusText = (r, requests) \<and>
           success r \<and> length (topics r) = length entries \<and>
           (\<forall>i < length entries.
              et_id (topics r ! i) = str ''topic-'' @ dec (i + 1) \<and>
              et_order (topics r ! i) = int (i + 1) \<and>
              (\<exists>s. js_prop eng (entries ! i) (str ''title'') = Inr (Some (JStr s)) \<and>
                   et_title (topics r ! i) = trim s))"
proof -
  from map_topics_titled [OF entries(2), of 0] obtain ts where
    ts: "map_topics eng 0 entries = Inr ts" "length ts = length entries"
      "\<forall>i < length entries.
              et_id (ts ! i) = str ''topic-'' @ dec (0 + i + 1) \<and>
              et_order (ts ! i) = int (0 + i + 1) \<and>
              (\<exists>s. js_prop eng (entries ! i) (str ''title'') = Inr (Some (JStr s)) \<and>
                   et_title (ts ! i) = trim s)"
    by blast
  from ts(2) entries(1) have ne: "ts \<noteq> []" by auto
  have body: "parse_body eng data = Inr ts"
    using choices content parsed ts(1) ne by (simp add: parse_body_def)
  have h: "handle_response eng response = Inr ts"
    using ok body by (simp add: handle_response_def parseOpenAIResponse_def)
  have t: "\<not> (syllabusText = [] \<or> length (trim syllabusText) < 50)"
    using long by (auto simp: trim_def)
  have "extractTopics config eng fetch startTime endTime syllabusText =
          (\<lparr>success = True, topics = ts, error = None, totalTopics = Some (length ts),
            processingTime = Some (endTime - startTime)\<rparr>,
           [\<lparr>authorization = apiKey config, req_model = model config,
             max_tokens = maxTokens config, syllabus = cleanSyllabusText syllabusText\<rparr>])"
    using key t resp h by (simp add: extractTopics_def Let_def)
  with ts(2,3) show ?thesis by simp
qed

theorem extractTopics_numbers_topics_witness:
  "\<exists>r requests.
     extractTopics sample_config sample_engine two_topics_fetch 0 1 sample_syllabus = (r, requests) \<and>
     success r \<and> length (topics r) = 2 \<and>
     et_id (topics r ! 0) = str ''topic-1'' \<and> et_order (topics r ! 0) = 1 \<and>
     et_id (topics r ! 1) = str ''topic-2'' \<and> et_order (topics r ! 1) = 2"
proof -
  let ?data = "JObj [(str ''choices'',
                    JArr [JObj [(str ''message'', JObj [(str ''content'', JStr two_topics_text)])]])]"
  let ?choices = "Some (JArr [JObj [(str ''message'', JObj [(str ''content'', JStr two_topics_text)])]])"
  have resp: "two_topics_fetch \<lparr>authorization = apiKey sample_config, req_model = model sample_config,
                      max_tokens = maxTokens sample_config,
                      syllabus = cleanSyllabusText sample_syllabus\<rparr> =
                FetchResponds (topics_response two_topics_text)"
    by (simp add: two_topics_fetch_def)
  have ok: "ok (topics_response two_topics_text)"
    "json_body (topics_response two_topics_text) = Inr ?data"
    by (simp_all add: topics_response_def)
  have choices: "js_prop sample_engine ?data (str ''choices'') = Inr ?choices"
    by simp
  have content: "js_opt_prop (js_opt_prop (js_opt_first ?choices) (str ''message''))
                    (str ''content'') = Some (JStr two_topics_text)"
    by simp
  have ne: "two_topics_text \<noteq> []"
    by (simp add: two_topics_text_def str_def)
  have differ: "two_topics_text \<noteq> empty_topics_text"
    by (simp add: two_topics_text_def empty_topics_text_def quoted_def str_def)
  have parsed: "JSON_parse sample_engine (JStr two_topics_text) =
                  Inr (JObj [(str ''topics'', JArr two_topics)])"
    by (simp add: sample_engine_def sample_JSON_parse_def differ)
  have topics: "js_prop sample_engine (JObj [(str ''topics'', JArr two_topics)]) (str ''topics'') =
                  Inr (Some (JArr two_topics))"
    by simp
  have entries: "two_topics \<noteq> []"
    "\<forall>e \<in> set two_topics.
       \<exists>s. js_prop sample_engine e (str ''title'') = Inr (Some (JStr s)) \<and> s \<noteq> []"
    by (simp_all add: two_topics_def str_def)
  have d: "dec 1 = str ''1''" "dec 2 = str ''2''" "dec (Suc 0) = str ''1''"
    by (simp_all add: dec.simps str_def)
  have l: "length two_topics = 2"
    by (simp add: two_topics_def)
  from extractTopics_numbers_topics [where config = sample_config and fetch = two_topics_fetch
      and syllabusText = sample_syllabus and eng = sample_engine and startTime = 0 and endTime = 1,
      OF sample_key sample_syllabus_long resp ok choices content ne parsed topics entries]
  obtain r requests where
    r: "extractTopics sample_config sample_engine two_topics_fetch 0 1 sample_syllabus = (r, requests)"
      "success r" "length (topics r) = length two_topics"
      "\<forall>i < length two_topics.
              et_id (topics r ! i) = str ''topic-'' @ dec (i + 1) \<and>
              et_order (topics r ! i) = int (i + 1)"
    by blast
  from r(4) l have "et_id (topics r ! 0) = str ''topic-'' @ dec 1 \<and> et_order (topics r ! 0) = 1"
    by force
  moreover from r(4) l have "(1::nat) < length two_topics \<longrightarrow>
      et_id (topics r ! 1) = str ''topic-'' @ dec (1 + 1) \<and> et_order (topics r ! 1) = int (1 + 1)"
    by blast
  with l have "et_id (topics r ! 1) = str ''topic-'' @ dec 2 \<and> et_order (topics r ! 1) = 2"
    by (simp add: numeral_2_eq_2)
  ultimately show ?thesis using r(1,2,3) l by (simp add: d str_def)
qed

section \<open>Keyword filtering\<close>

lemma string_entries_filter: "map JStr (string_entries ks) = filter is_string ks"
  by (induction ks rule: string_entries.induct) auto

lemma filter_keywords_cases:
  "case v of
     Some (JArr ks) \<Rightarrow> (\<exists>kept. filter_keywords v = Some kept \<and> map JStr kept = filter is_string ks)
   | _ \<Rightarrow> filter_keywords v = None"
  by (cases v rule: filter_keywords.cases) (simp_all add: string_entries_filter)

text \<open>
  Claim C5, as stated, fails where a keywords array holds no string: for the entry
  \<open>{"title":"Loops","keywords":[2,null]}\<close> the resulting topic has the keywords field
  present and empty, not absent.
\<close>

theorem parse_topic_empty_keywords_kept:
  "parse_topic sample_engine numeric_keywords_topic 0 =
     Inr \<lparr>et_id = str ''topic-1'', et_title = str ''Loops'', et_order = 1,
          et_keywords = Some []\<rparr>"
  by (simp add: numeric_keywords_topic_def parse_topic_def str_def dec.simps trim_def
      isWhiteSpace_def)

text \<open>
  Claim C5, amended. For every topic entry with a non-empty string title, the resulting
  topic's keywords are exactly the string-typed entries of the entry's keywords array, in
  order, whenever keywords is an array (the field is then present, also when no string
  remains); the field is absent exactly when keywords is not an array.
\<close>

theorem parse_topic_keywords:
  assumes "js_prop eng topic (str ''title'') = Inr (Some (JStr s))" and "s \<noteq> []"
  shows "\<exists>t. parse_topic eng topic index = Inr t \<and>
           (case js_opt_prop (Some topic) (str ''keywords'') of
              Some (JArr ks) \<Rightarrow>
                (\<exists>kept. et_keywords t = Some kept \<and> map JStr kept = filter is_string ks)
            | _ \<Rightarrow> et_keywords t = None)"
  using filter_keywords_cases [of "js_opt_prop (Some topic) (str ''keywords'')"]
  by (simp add: parse_topic_string_title [OF assms] split: option.splits json.splits)

theorem parse_topic_keywords_witness:
  "\<exists>t. parse_topic sample_engine mixed_keywords_topic 0 = Inr t \<and>
       et_keywords t = Some [str ''a'', str ''b'']"
proof -
  have a: "js_prop sample_engine mixed_keywords_topic (str ''title'') = Inr (Some (JStr (str ''Loops'')))"
    by (simp add: mixed_keywords_topic_def str_def)
  have b: "str ''Loops'' \<noteq> []" by (simp add: str_def)
  have c: "js_opt_prop (Some mixed_keywords_topic) (str ''keywords'') =
             Some (JArr [JStr (str ''a''), JNum 2, JStr (str ''b''), JNull])"
    by (simp add: mixed_keywords_topic_def str_def)
  from parse_topic_keywords [OF a b, of 0] show ?thesis
    by (auto simp add: c)
qed

section \<open>Error classification\<close>

text \<open>
  Claim C7, as stated, fails for a message that contains ``rate limit'' and also a
  substring tested earlier: the message \<open>rate limit hit, quota left: 0\<close> maps to the
  billing message.
\<close>

theorem getErrorMessage_rate_limit_and_quota:
  "js_includes (str ''rate limit hit, quota left: 0'') (str ''rate limit'') \<and>
   getErrorMessage (Some (str ''rate limit hit, quota left: 0'')) =
     str ''OpenAI API quota exceeded. Please check your billing settings.'' \<and>
   getErrorMessage (Some (str ''rate limit hit, quota left: 0'')) \<noteq>
     str ''Too many requests. Please wait a moment and try again.''"
  by (simp add: getErrorMessage_def str_def)

text \<open>
  Claim C7, amended. The substrings are tested in the order ``API key'', ``quota'' or
  ``billing'', ``rate limit'', ``network'' or ``fetch'', and the first match decides: a
  message containing ``rate limit'' and none of ``API key'', ``quota'', ``billing'' maps
  to the rate-limit message; a message containing ``quota'' and not ``API key'' maps to
  the billing message; a message containing none of the six substrings is wrapped as
  \<open>Topic extraction failed: \<close> followed by the message (by \<open>Unknown error\<close> when the
  message is empty).
\<close>

theorem getErrorMessage_classes:
  "(js_includes m (str ''rate limit'') \<and> \<not> js_includes m (str ''API key'') \<and>
    \<not> js_includes m (str ''quota'') \<and> \<not> js_includes m (str ''billing'')
      \<longrightarrow> getErrorMessage (Some m) = str ''Too many requests. Please wait a moment and try again.'') \<and>
   (js_includes m (str ''quota'') \<and> \<not> js_includes m (str ''API key'')
      \<longrightarrow> getErrorMessage (Some m) = str ''OpenAI API quota exceeded. Please check your billing settings.'') \<and>
   (\<not> js_includes m (str ''API key'') \<and> \<not> js_includes m (str ''quota'') \<and>
    \<not> js_includes m (str ''billing'') \<and> \<not> js_includes m (str ''rate limit'') \<and>
    \<not> js_includes m (str ''network'') \<and> \<not> js_includes m (str ''fetch'')
      \<longrightarrow> getErrorMessage (Some m) =
            str ''Topic extraction failed: '' @ (if m = [] then str ''Unknown error'' else m))"
proof (cases "m = []")
  case True
  have e: "\<not> js_includes [] (str ''rate limit'')" "\<not> js_includes [] (str ''quota'')"
    by (simp_all add: str_def)
  have u: "\<not> js_includes (str ''Unknown error'') (str ''API key'')"
    "\<not> js_includes (str ''Unknown error'') (str ''quota'')"
    "\<not> js_includes (str ''Unknown error'') (str ''billing'')"
    "\<not> js_includes (str ''Unknown error'') (str ''rate limit'')"
    "\<not> js_includes (str ''Unknown error'') (str ''network'')"
    "\<not> js_includes (str ''Unknown error'') (str ''fetch'')"
    by (simp_all add: str_def)
  show ?thesis
    using True e by (simp add: getErrorMessage_def u)
next
  case False
  then show ?thesis
    by (simp add: getErrorMessage_def)
qed

theorem getErrorMessage_classes_witness:
  "getErrorMessage (Some (str ''rate limit reached'')) = str ''Too many requests. Please wait a moment and try again.'' \<and>
   getErrorMessage (Some (str ''insufficient quota'')) = str ''OpenAI API quota exceeded. Please check your billing settings.'' \<and>
   getErrorMessage (Some (str ''boom'')) = str ''Topic extraction failed: '' @ str ''boom''"
proof -
  have a: "js_includes (str ''rate limit reached'') (str ''rate limit'') \<and> \<not> js_includes (str ''rate limit reached'') (str ''API key'') \<and>
    \<not> js_includes (str ''rate limit reached'') (str ''quota'') \<and> \<not> js_includes (str ''rate limit reached'') (str ''billing'')"
    by (simp add: str_def)
  have b: "js_includes (str ''insufficient quota'') (str ''quota'') \<and> \<not> js_includes (str ''insufficient quota'') (str ''API key'')"
    by (simp add: str_def)
  have c: "\<not> js_includes (str ''boom'') (str ''API key'') \<and> \<not> js_includes (str ''boom'') (str ''quota'') \<and>
    \<not> js_includes (str ''boom'') (str ''billing'') \<and> \<not> js_includes (str ''boom'') (str ''rate limit'') \<and>
    \<not> js_includes (str ''boom'') (str ''network'') \<and> \<not> js_includes (str ''boom'') (str ''fetch'')"
    by (simp add: str_def)
  have d: "str ''boom'' \<noteq> []" by (simp add: str_def)
  from a getErrorMessage_classes [of "str ''rate limit reached''"]
  have 1: "getErrorMessage (Some (str ''rate limit reached'')) = str ''Too many requests. Please wait a moment and try again.''"
    by blast
  from b getErrorMessage_classes [of "str ''insufficient quota''"]
  have 2: "getErrorMessage (Some (str ''insufficient quota'')) = str ''OpenAI API quota exceeded. Please check your billing settings.''"
    by blast
  from c d getErrorMessage_classes [of "str ''boom''"]
  have 3: "getErrorMessage (Some (str ''boom'')) = str ''Topic extraction failed: '' @ str ''boom''"
    by simp
  from 1 2 3 show ?thesis by blast
qed

section \<open>Saving topics\<close>

lemma sample_user: "getCurrentUserId sample_env site = Some (str ''u1'')"
  by (simp add: getCurrentUserId_def sample_env_def all_succeed_def str_def)

lemma verify_iff:
  "verifyCourseOwnership env db cid \<longleftrightarrow>
     (\<exists>u c. getCurrentUserId env VerifyGetUser = Some u \<and>
            outcome_of env SelectOwnedCourse = Succeeds \<and>
            filter (\<lambda>c. c_id c = cid \<and> c_userId c = u) (db_courses db) = [c])"
  unfolding verifyCourseOwnership_def
  by (auto split: option.splits outcome.splits list.splits)

lemma filter_marked:
  "filter (\<lambda>c. c_id c = cid \<and> c_userId c = u)
     (map (\<lambda>c. if c_id c = courseId
               then c\<lparr>c_topicsExtracted := True, c_updatedAt := now\<rparr> else c) cs) =
   map (\<lambda>c. if c_id c = courseId
             then c\<lparr>c_topicsExtracted := True, c_updatedAt := now\<rparr> else c)
     (filter (\<lambda>c. c_id c = cid \<and> c_userId c = u) cs)"
  by (induction cs) auto

lemma single_map: "(\<exists>y. map f xs = [y]) \<longleftrightarrow> (\<exists>x. xs = [x])"
  by (cases xs) auto

lemma verify_after_mark:
  "verifyCourseOwnership env (mark_topics_extracted db courseId now) cid =
   verifyCourseOwnership env db cid"
proof -
  have "(\<exists>c. filter (\<lambda>c. c_id c = cid \<and> c_userId c = u)
               (db_courses (mark_topics_extracted db courseId now)) = [c]) \<longleftrightarrow>
        (\<exists>c. filter (\<lambda>c. c_id c = cid \<and> c_userId c = u) (db_courses db) = [c])" for u
    unfolding mark_topics_extracted_def
    by (simp add: filter_marked single_map)
  then show ?thesis
    unfolding verify_iff by blast
qed

lemma verify_topics_irrelevant:
  "verifyCourseOwnership env (db\<lparr>db_topics := ts\<rparr>) cid = verifyCourseOwnership env db cid"
  unfolding verify_iff by simp

lemma sample_owner: "verifyCourseOwnership sample_env sample_db (str ''c1'')"
  unfolding verify_iff
  by (simp add: sample_user)
     (simp add: sample_env_def all_succeed_def sample_db_def sample_course_def str_def)

lemma owned_course_exists:
  assumes "verifyCourseOwnership env db courseId"
  shows "\<exists>c \<in> set (db_courses db). c_id c = courseId"
proof -
  from assms obtain u c where
    f: "filter (\<lambda>c. c_id c = courseId \<and> c_userId c = u) (db_courses db) = [c]"
    unfolding verify_iff by (elim exE conjE)
  have "c \<in> set (filter (\<lambda>c. c_id c = courseId \<and> c_userId c = u) (db_courses db))"
    by (simp only: f) simp
  then have "c \<in> set (db_courses db)" "c_id c = courseId"
    by simp_all
  then show ?thesis by (rule_tac x = c in bexI)
qed

lemma marked_flag:
  "\<forall>c \<in> set (db_courses (mark_topics_extracted db courseId now)).
     c_id c = courseId \<longrightarrow> c_topicsExtracted c"
proof -
  let ?f = "\<lambda>c. if c_id c = courseId
                then c\<lparr>c_topicsExtracted := True, c_updatedAt := now\<rparr> else c"
  have p: "c_id (?f x) = courseId \<longrightarrow> c_topicsExtracted (?f x)" for x
    by (cases "c_id x = courseId") simp_all
  have d: "db_courses (mark_topics_extracted db courseId now) = map ?f (db_courses db)"
    by (simp add: mark_topics_extracted_def)
  show ?thesis
    unfolding d set_map
  proof (intro ballI)
    fix c assume "c \<in> ?f ` set (db_courses db)"
    then obtain x where "c = ?f x" by (rule imageE)
    with p [of x] show "c_id c = courseId \<longrightarrow> c_topicsExtracted c"
      by (simp only:)
  qed
qed

lemma marked_exists:
  "(\<exists>c \<in> set (db_courses (mark_topics_extracted db courseId now)). c_id c = courseId) =
   (\<exists>c \<in> set (db_courses db). c_id c = courseId)"
proof -
  have "(\<exists>c \<in> set (map (\<lambda>c. if c_id c = courseId
                then c\<lparr>c_topicsExtracted := True, c_updatedAt := now\<rparr> else c) cs).
          c_id c = courseId) = (\<exists>c \<in> set cs. c_id c = courseId)" for cs
    by (induction cs) simp_all
  then show ?thesis
    unfolding mark_topics_extracted_def by simp
qed

lemma marked_topics: "db_topics (mark_topics_extracted db courseId now) = db_topics db"
  by (simp add: mark_topics_extracted_def)

lemma sample_outcomes: "outcome_of sample_env site = Succeeds"
  by (simp add: sample_env_def all_succeed_def)

lemma topicsToInsert_length: "length (topicsToInsert env courseId k ts) = length ts"
  by (induction ts arbitrary: k) simp_all

lemma topicsToInsert_empty: "topicsToInsert env courseId k ts = [] \<longleftrightarrow> ts = []"
  by (cases ts) simp_all

lemma delete_course_topics_none:
  "filter (\<lambda>t. t_courseId t = courseId) (db_topics (delete_course_topics db courseId)) = []"
  by (simp add: delete_course_topics_def filter_empty_conv)

lemma save_insert_not_succeeding:
  assumes "getCurrentUserId env AuthGetUser = Some userId"
    and "verifyCourseOwnership env db courseId"
    and "outcome_of env DeleteCourseTopics = Succeeds"
    and "outcome_of env InsertTopics \<noteq> Succeeds"
    and "extractedTopics \<noteq> []"
  shows "snd (saveTopicsForCourse env db courseId extractedTopics) = delete_course_topics db courseId \<and>
         \<not> sr_success (fst (saveTopicsForCourse env db courseId extractedTopics)) \<and>
         sr_data (fst (saveTopicsForCourse env db courseId extractedTopics)) = None \<and>
         sr_error (fst (saveTopicsForCourse env db courseId extractedTopics)) \<noteq> None"
proof (cases "outcome_of env InsertTopics")
  case Succeeds
  with assms(4) show ?thesis by simp
next
  case (Fails e)
  with assms show ?thesis
    by (simp add: saveTopicsForCourse_def Let_def topicsToInsert_empty service_failed_def)
next
  case Throws
  with assms show ?thesis
    by (simp add: saveTopicsForCourse_def Let_def topicsToInsert_empty
        service_network_error_def)
qed

lemma insert_fails_user: "getCurrentUserId insert_fails_env AuthGetUser = Some (str ''u1'')"
  by (simp add: getCurrentUserId_def insert_fails_env_def insert_fails_def str_def)

lemma insert_fails_owner: "verifyCourseOwnership insert_fails_env sample_db (str ''c1'')"
  unfolding verify_iff
  by (simp add: getCurrentUserId_def insert_fails_env_def insert_fails_def sample_db_def
      sample_course_def str_def)

lemma insert_fails_outcomes:
  "outcome_of insert_fails_env DeleteCourseTopics = Succeeds"
  "outcome_of insert_fails_env InsertTopics \<noteq> Succeeds"
  by (simp_all add: insert_fails_env_def insert_fails_def)

lemma unflagged_owner: "verifyCourseOwnership sample_env unflagged_db (str ''c1'')"
  unfolding verify_iff
  by (simp add: sample_user)
     (simp add: sample_env_def all_succeed_def unflagged_db_def sample_course_def str_def)

lemma update_fails_user: "getCurrentUserId update_fails_env AuthGetUser = Some (str ''u1'')"
  by (simp add: getCurrentUserId_def update_fails_env_def update_fails_def str_def)

lemma update_fails_owner: "verifyCourseOwnership update_fails_env unflagged_db (str ''c1'')"
  unfolding verify_iff
  by (simp add: getCurrentUserId_def update_fails_env_def update_fails_def unflagged_db_def
      sample_course_def str_def)

lemma delete_fails_user: "getCurrentUserId delete_fails_env AuthGetUser = Some (str ''u1'')"
  by (simp add: getCurrentUserId_def delete_fails_env_def delete_fails_def str_def)

lemma delete_fails_owner: "verifyCourseOwnership delete_fails_env unflagged_db (str ''c1'')"
  unfolding verify_iff
  by (simp add: getCurrentUserId_def delete_fails_env_def delete_fails_def unflagged_db_def
      sample_course_def str_def)

lemma unflagged_delete:
  "delete_course_topics unflagged_db (str ''c1'') =
     \<lparr>db_courses = [sample_course\<lparr>c_topicsExtracted := False\<rparr>], db_topics = []\<rparr>"
  by (simp add: delete_course_topics_def unflagged_db_def sample_topic_def)

text \<open>
  Claim C10, as stated, fails where a backend write does not succeed. The result of the
  course update is never read: when the update returns an error, the call still answers
  success with an empty list and the \<open>topicsExtracted\<close> flag stays false. When the
  delete returns an error, the call answers an error and changes nothing.
\<close>

theorem empty_save_unchecked_writes:
  "getCurrentUserId update_fails_env AuthGetUser = Some (str ''u1'') \<and>
   verifyCourseOwnership update_fails_env unflagged_db (str ''c1'') \<and>
   fst (saveTopicsForCourse update_fails_env unflagged_db (str ''c1'') []) = service_ok [] \<and>
   map c_topicsExtracted
     (db_courses (snd (saveTopicsForCourse update_fails_env unflagged_db (str ''c1'') []))) =
     [False] \<and>
   getCurrentUserId delete_fails_env AuthGetUser = Some (str ''u1'') \<and>
   verifyCourseOwnership delete_fails_env unflagged_db (str ''c1'') \<and>
   sr_success (fst (saveTopicsForCourse delete_fails_env unflagged_db (str ''c1'') [])) = False \<and>
   snd (saveTopicsForCourse delete_fails_env unflagged_db (str ''c1'') []) = unflagged_db"
proof -
  have u: "saveTopicsForCourse update_fails_env unflagged_db (str ''c1'') [] =
             (service_ok [], delete_course_topics unflagged_db (str ''c1''))"
    using update_fails_user update_fails_owner
    by (simp add: saveTopicsForCourse_def) (simp add: update_fails_env_def update_fails_def)
  have d: "saveTopicsForCourse delete_fails_env unflagged_db (str ''c1'') [] =
             (service_failed ''Failed to clear existing topics'' (QueryError None), unflagged_db)"
    using delete_fails_user delete_fails_owner
    by (simp add: saveTopicsForCourse_def) (simp add: delete_fails_env_def delete_fails_def)
  show ?thesis
    by (simp add: u d update_fails_user update_fails_owner delete_fails_user delete_fails_owner
        unflagged_delete service_failed_def)
qed

text \<open>
  Claim C10, amended. For an authenticated caller who owns the course, when the delete
  of the existing topics and the update of the course row succeed,
  \<open>saveTopicsForCourse\<close> with an empty list answers success with an empty topic list;
  afterwards the course has no topics and its \<open>topicsExtracted\<close> flag is true.
\<close>

theorem save_empty_list:
  assumes "getCurrentUserId env AuthGetUser = Some userId"
    and "verifyCourseOwnership env db courseId"
    and "outcome_of env DeleteCourseTopics = Succeeds"
    and "outcome_of env UpdateCourse = Succeeds"
  shows "\<exists>db'. saveTopicsForCourse env db courseId [] = (service_ok [], db') \<and>
           filter (\<lambda>t. t_courseId t = courseId) (db_topics db') = [] \<and>
           (\<exists>c \<in> set (db_courses db'). c_id c = courseId) \<and>
           (\<forall>c \<in> set (db_courses db'). c_id c = courseId \<longrightarrow> c_topicsExtracted c)"
proof -
  let ?db' = "mark_topics_extracted (delete_course_topics db courseId) courseId (clock env 0)"
  have s: "saveTopicsForCourse env db courseId [] = (service_ok [], ?db')"
    using assms by (simp add: saveTopicsForCourse_def)
  have t: "filter (\<lambda>t. t_courseId t = courseId) (db_topics ?db') = []"
    by (simp add: marked_topics delete_course_topics_def filter_empty_conv)
  have e: "\<exists>c \<in> set (db_courses ?db'). c_id c = courseId"
    using owned_course_exists [OF assms(2)]
    by (simp only: marked_exists) (simp add: delete_course_topics_def)
  have m: "\<forall>c \<in> set (db_courses ?db'). c_id c = courseId \<longrightarrow> c_topicsExtracted c"
    by (rule marked_flag)
  show ?thesis
    by (rule exI [of _ ?db']) (intro conjI s t e m)
qed

theorem save_empty_list_witness:
  "map c_topicsExtracted (db_courses unflagged_db) = [False] \<and>
   (\<exists>db'. saveTopicsForCourse sample_env unflagged_db (str ''c1'') [] = (service_ok [], db') \<and>
         filter (\<lambda>t. t_courseId t = str ''c1'') (db_topics db') = [] \<and>
         (\<exists>c. c \<in> set (db_courses db') \<and> c_id c = str ''c1'' \<and> c_topicsExtracted c))"
proof -
  have f: "map c_topicsExtracted (db_courses unflagged_db) = [False]"
    by (simp add: unflagged_db_def)
  from save_empty_list [OF sample_user [of AuthGetUser] unflagged_owner
      sample_outcomes [of DeleteCourseTopics] sample_outcomes [of UpdateCourse]]
  obtain db' where
    d: "saveTopicsForCourse sample_env unflagged_db (str ''c1'') [] = (service_ok [], db')"
      "filter (\<lambda>t. t_courseId t = str ''c1'') (db_topics db') = []"
      "\<exists>c \<in> set (db_courses db'). c_id c = str ''c1''"
      "\<forall>c \<in> set (db_courses db'). c_id c = str ''c1'' \<longrightarrow> c_topicsExtracted c"
    by blast
  from d(3,4) have "\<exists>c. c \<in> set (db_courses db') \<and> c_id c = str ''c1'' \<and> c_topicsExtracted c"
    by blast
  with d(1,2) f show ?thesis by blast
qed

text \<open>
  Claim C3, as stated, fails for a course whose flag was already set (by an earlier
  save): after the delete succeeds and the insert fails, the course has no topics and the
  flag is still true, not unset.
\<close>

theorem insert_failure_keeps_flag:
  "outcome_of insert_fails_env DeleteCourseTopics = Succeeds \<and>
   outcome_of insert_fails_env InsertTopics = Fails (QueryError None) \<and>
   \<not> sr_success (fst (saveTopicsForCourse insert_fails_env sample_db (str ''c1'') [topic_X])) \<and>
   db_topics (snd (saveTopicsForCourse insert_fails_env sample_db (str ''c1'') [topic_X])) = [] \<and>
   map c_topicsExtracted
     (db_courses (snd (saveTopicsForCourse insert_fails_env sample_db (str ''c1'') [topic_X]))) =
     [True]"
proof -
  have ne: "[topic_X] \<noteq> []" by simp
  note s = save_insert_not_succeeding [OF insert_fails_user insert_fails_owner
      insert_fails_outcomes ne]
  have d: "delete_course_topics sample_db (str ''c1'') =
             \<lparr>db_courses = [sample_course], db_topics = []\<rparr>"
    by (simp add: delete_course_topics_def sample_db_def sample_topic_def)
  have o: "outcome_of insert_fails_env InsertTopics = Fails (QueryError None)"
    by (simp add: insert_fails_env_def insert_fails_def)
  show ?thesis
    using s insert_fails_outcomes(1) o by (simp add: d sample_course_def)
qed

text \<open>
  Claim C3, amended. \<open>saveTopicsForCourse\<close> is not atomic: whenever the delete of the
  existing topics succeeds and the insert of a non-empty list does not (it returns an
  error or throws), the operation returns an error, the course is left with no topics
  (the previous ones are not restored), and the course rows, with their
  \<open>topicsExtracted\<close> flags, are as they were before the call.
\<close>

theorem save_insert_failure:
  assumes "getCurrentUserId env AuthGetUser = Some userId"
    and "verifyCourseOwnership env db courseId"
    and "outcome_of env DeleteCourseTopics = Succeeds"
    and "outcome_of env InsertTopics \<noteq> Succeeds"
    and "extractedTopics \<noteq> []"
  shows "\<exists>r db'. saveTopicsForCourse env db courseId extractedTopics = (r, db') \<and>
           \<not> sr_success r \<and> sr_data r = None \<and> sr_error r \<noteq> None \<and>
           filter (\<lambda>t. t_courseId t = courseId) (db_topics db') = [] \<and>
           db_courses db' = db_courses db"
proof -
  obtain r db' where p: "saveTopicsForCourse env db courseId extractedTopics = (r, db')"
    by (cases "saveTopicsForCourse env db courseId extractedTopics")
  from save_insert_not_succeeding [OF assms] p
  have "db' = delete_course_topics db courseId" "\<not> sr_success r" "sr_data r = None"
    "sr_error r \<noteq> None"
    by simp_all
  moreover have "db_courses (delete_course_topics db courseId) = db_courses db"
    by (simp add: delete_course_topics_def)
  ultimately show ?thesis
    using p delete_course_topics_none by simp
qed

theorem save_insert_failure_witness:
  "\<exists>r db'. saveTopicsForCourse insert_fails_env sample_db (str ''c1'') [topic_X] = (r, db') \<and>
           \<not> sr_success r \<and> sr_data r = None \<and> sr_error r \<noteq> None \<and>
           filter (\<lambda>t. t_courseId t = str ''c1'') (db_topics db') = [] \<and>
           db_courses db' = db_courses sample_db"
  using save_insert_failure [OF insert_fails_user insert_fails_owner insert_fails_outcomes,
      of "[topic_X]"]
  by simp

section \<open>Conversion between topics and extracted topics\<close>

lemma str_comma_space: "str '', '' = comma_space"
  by (simp add: str_def)

lemma split_from_no_separator:
  "\<not> js_includes k comma_space \<Longrightarrow> split_from comma_space cur k = [rev cur @ k]"
proof (induction k arbitrary: cur)
  case Nil
  then show ?case by (simp add: split_from.simps)
next
  case (Cons c k)
  then have "\<not> prefix comma_space (c # k)" "\<not> js_includes k comma_space"
    by simp_all
  with Cons.IH [of "c # cur"] show ?case
    by (subst split_from.simps) simp
qed

lemma split_from_first_piece:
  "\<not> js_includes k comma_space \<Longrightarrow>
   split_from comma_space cur (k @ 0x2C # 0x20 # r) = (rev cur @ k) # split_from comma_space [] r"
proof (induction k arbitrary: cur)
  case Nil
  then show ?case by (subst split_from.simps) simp
next
  case (Cons c k)
  then have n: "\<not> prefix comma_space (c # k)" "\<not> js_includes k comma_space"
    by simp_all
  have "\<not> prefix comma_space (c # k @ 0x2C # 0x20 # r)"
    using n(1) by (cases k) auto
  with Cons.IH [OF n(2), of "c # cur"] show ?case
    by (subst split_from.simps) simp
qed

lemma split_join:
  assumes "ks \<noteq> []" and "\<forall>k \<in> set ks. \<not> js_includes k comma_space"
  shows "split_from comma_space [] (js_join comma_space ks) = ks"
  using assms
proof (induction ks)
  case Nil
  then show ?case by simp
next
  case (Cons k ks)
  show ?case
  proof (cases ks)
    case Nil
    with Cons.prems show ?thesis by (simp add: split_from_no_separator)
  next
    case (Cons k2 ks2)
    with Cons.prems Cons.IH show ?thesis by (simp add: split_from_first_piece)
  qed
qed

lemma join_nonempty:
  assumes "ks \<noteq> []" and "\<forall>k \<in> set ks. k \<noteq> []"
  shows "js_join sep ks \<noteq> []"
proof (cases ks)
  case Nil
  with assms show ?thesis by simp
next
  case (Cons k ks2)
  with assms show ?thesis by (cases ks2) auto
qed

text \<open>
  Claim C9, as stated, fails for a keyword that is non-empty but consists of white
  space: the keyword \<open>" "\<close> contains no \<open>", "\<close> and is dropped by the
  \<open>filter(k => k.trim())\<close> of \<open>topicToExtractedTopic\<close>.
\<close>

theorem blank_keyword_lost:
  "et_keywords blank_keyword_topic = Some [str '' ''] \<and>
   str '' '' \<noteq> [] \<and> \<not> js_includes (str '' '') (str '', '') \<and>
   et_keywords (topicToExtractedTopic
     (stored_topic (str ''id1'') (str ''2025-01-01'')
        (extractedTopicToTopic blank_keyword_topic (str ''c1'')))) = Some []"
  by (simp add: topicToExtractedTopic_def stored_topic_def extractedTopicToTopic_def
      blank_keyword_topic_def js_split_def str_def split_from.simps trim_def isWhiteSpace_def)

text \<open>
  Claim C9, amended. For every extracted topic whose keywords list is present and whose
  keywords each contain a character that is not white space and no \<open>", "\<close>, converting
  it with \<open>extractedTopicToTopic\<close>, storing the row and converting back with
  \<open>topicToExtractedTopic\<close> preserves title, order and keywords.
\<close>

theorem keywords_round_trip:
  assumes "et_keywords extractedTopic = Some ks"
    and "\<forall>k \<in> set ks. trim k \<noteq> [] \<and> \<not> js_includes k (str '', '')"
  shows "topicToExtractedTopic (stored_topic ident created (extractedTopicToTopic extractedTopic courseId)) =
           \<lparr>et_id = ident, et_title = et_title extractedTopic, et_order = et_order extractedTopic,
            et_keywords = Some ks\<rparr>"
proof (cases "ks = []")
  case True
  with assms(1) show ?thesis
    by (simp add: topicToExtractedTopic_def stored_topic_def extractedTopicToTopic_def)
next
  case False
  have ne: "\<forall>k \<in> set ks. k \<noteq> []"
    using assms(2) by (auto simp: trim_def)
  have inc: "\<forall>k \<in> set ks. \<not> js_includes k comma_space"
    using assms(2) by (simp add: str_comma_space)
  have f: "filter (\<lambda>k. trim k \<noteq> []) ks = ks"
    using assms(2) by (simp add: filter_id_conv)
  have j: "js_join comma_space ks \<noteq> []"
    using join_nonempty [OF False ne] .
  show ?thesis
    using assms(1) j
    by (simp add: topicToExtractedTopic_def stored_topic_def extractedTopicToTopic_def
        js_split_def str_comma_space split_join [OF False inc] f)
qed

theorem keywords_round_trip_witness:
  "topicToExtractedTopic
     (stored_topic (str ''id1'') (str ''2025-01-01'')
        (extractedTopicToTopic two_keywords_topic (str ''c1''))) =
   \<lparr>et_id = str ''id1'', et_title = str ''Loops'', et_order = 1,
    et_keywords = Some [str ''for'', str ''do while'']\<rparr>"
proof -
  have a: "et_keywords two_keywords_topic = Some [str ''for'', str ''do while'']"
    by (simp add: two_keywords_topic_def)
  have b: "\<forall>k \<in> set [str ''for'', str ''do while'']. trim k \<noteq> [] \<and> \<not> js_includes k (str '', '')"
    by (simp add: str_def trim_def isWhiteSpace_def)
  from keywords_round_trip [OF a b, of "str ''id1''" "str ''2025-01-01''" "str ''c1''"]
  show ?thesis by (simp add: two_keywords_topic_def)
qed

section \<open>Saving and fetching topics\<close>

lemma verify_after_delete:
  "verifyCourseOwnership env (delete_course_topics db courseId) cid =
   verifyCourseOwnership env db cid"
  unfolding delete_course_topics_def by (rule verify_topics_irrelevant)

lemma filter_own_after_delete:
  assumes "\<forall>t \<in> set new. t_courseId t = courseId"
  shows "filter (\<lambda>t. t_courseId t = courseId)
           (db_topics (delete_course_topics db courseId) @ new) = new"
  using assms by (simp add: delete_course_topics_def filter_empty_conv filter_id_conv)

text \<open>
  Claim C2. For a course owned by the authenticated caller, when the backend calls of
  the save (delete, insert, course update) and of the fetch succeed, saving two topics
  with titles X, Y and orders 1, 2 succeeds, fetching the topics of the course then
  returns exactly two topics with titles X then Y, and the course's \<open>topicsExtracted\<close>
  flag is true.
\<close>

theorem save_then_get:
  assumes user: "getCurrentUserId env AuthGetUser = Some userId"
    and owner: "verifyCourseOwnership env db courseId"
    and writes: "outcome_of env DeleteCourseTopics = Succeeds"
      "outcome_of env InsertTopics = Succeeds" "outcome_of env UpdateCourse = Succeeds"
    and user': "getCurrentUserId env' AuthGetUser = Some userId'"
    and owner': "verifyCourseOwnership env' db courseId"
    and reads: "outcome_of env' SelectTopics = Succeeds"
    and x: "et_title x = X" "et_order x = 1"
    and y: "et_title y = Y" "et_order y = 2"
  shows "\<exists>saved db'. saveTopicsForCourse env db courseId [x, y] = (saved, db') \<and>
           sr_success saved \<and>
           (\<exists>tx ty. getTopicsForCourse env' db' courseId = service_ok [tx, ty] \<and>
                    t_title tx = X \<and> t_title ty = Y) \<and>
           (\<exists>c \<in> set (db_courses db'). c_id c = courseId) \<and>
           (\<forall>c \<in> set (db_courses db'). c_id c = courseId \<longrightarrow> c_topicsExtracted c)"
proof -
  let ?content = "\<lambda>t. case et_keywords t of Some ks \<Rightarrow> js_join (str '', '') ks | None \<Rightarrow> []"
  let ?tx = "\<lparr>t_id = new_id env 0, t_courseId = courseId, t_title = X,
              t_content = ?content x, t_orderIndex = 1, t_createdAt = clock env 0\<rparr>"
  let ?ty = "\<lparr>t_id = new_id env (Suc 0), t_courseId = courseId, t_title = Y,
              t_content = ?content y, t_orderIndex = 2, t_createdAt = clock env (Suc 0)\<rparr>"
  let ?db1 = "delete_course_topics db courseId"
  let ?db2 = "?db1\<lparr>db_topics := db_topics ?db1 @ [?tx, ?ty]\<rparr>"
  let ?db' = "mark_topics_extracted ?db2 courseId (clock env (Suc (Suc 0)))"
  have rows: "inserted_rows env 0 (topicsToInsert env courseId 0 [x, y]) = [?tx, ?ty]"
    using x y by simp
  have s: "saveTopicsForCourse env db courseId [x, y] = (service_ok [?tx, ?ty], ?db')"
    using user owner writes
    by (simp add: saveTopicsForCourse_def Let_def rows topicsToInsert_empty del: topicsToInsert.simps inserted_rows.simps)
  have v: "verifyCourseOwnership env' ?db' courseId"
    using owner' by (simp add: verify_after_mark verify_topics_irrelevant verify_after_delete)
  have f: "filter (\<lambda>t. t_courseId t = courseId) (db_topics ?db') = [?tx, ?ty]"
    using filter_own_after_delete [of "[?tx, ?ty]" courseId db]
    by (simp add: marked_topics)
  have g: "getTopicsForCourse env' ?db' courseId = service_ok [?tx, ?ty]"
    using user' v reads by (simp add: getTopicsForCourse_def f)
  have e: "\<exists>c \<in> set (db_courses ?db'). c_id c = courseId"
    using owned_course_exists [OF owner]
    by (simp only: marked_exists) (simp add: delete_course_topics_def)
  have m: "\<forall>c \<in> set (db_courses ?db'). c_id c = courseId \<longrightarrow> c_topicsExtracted c"
    by (rule marked_flag)
  have ok: "sr_success (service_ok [?tx, ?ty])"
    by (simp add: service_ok_def)
  have t: "\<exists>tx ty. getTopicsForCourse env' ?db' courseId = service_ok [tx, ty] \<and>
                    t_title tx = X \<and> t_title ty = Y"
    by (rule exI [of _ ?tx], rule exI [of _ ?ty]) (simp add: g)
  show ?thesis
    by (rule exI [of _ "service_ok [?tx, ?ty]"], rule exI [of _ ?db']) (intro conjI s ok t e m)
qed

theorem save_then_get_witness:
  "\<exists>saved db'.
      saveTopicsForCourse sample_env sample_db (str ''c1'') [topic_X, topic_Y] = (saved, db') \<and>
      sr_success saved \<and>
      (\<exists>tx ty. getTopicsForCourse sample_env db' (str ''c1'') = service_ok [tx, ty] \<and>
               t_title tx = str ''X'' \<and> t_title ty = str ''Y'') \<and>
      (\<exists>c. c \<in> set (db_courses db') \<and> c_id c = str ''c1'' \<and> c_topicsExtracted c)"
proof -
  have x: "et_title topic_X = str ''X''" "et_order topic_X = 1"
    by (simp_all add: topic_X_def)
  have y: "et_title topic_Y = str ''Y''" "et_order topic_Y = 2"
    by (simp_all add: topic_Y_def)
  from save_then_get [OF sample_user [of AuthGetUser] sample_owner
      sample_outcomes [of DeleteCourseTopics] sample_outcomes [of InsertTopics]
      sample_outcomes [of UpdateCourse] sample_user [of AuthGetUser] sample_owner
      sample_outcomes [of SelectTopics] x y]
  obtain saved db' where
    d: "saveTopicsForCourse sample_env sample_db (str ''c1'') [topic_X, topic_Y] = (saved, db')"
      "sr_success saved"
      "\<exists>tx ty. getTopicsForCourse sample_env db' (str ''c1'') = service_ok [tx, ty] \<and>
               t_title tx = str ''X'' \<and> t_title ty = str ''Y''"
      "\<exists>c \<in> set (db_courses db'). c_id c = str ''c1''"
      "\<forall>c \<in> set (db_courses db'). c_id c = str ''c1'' \<longrightarrow> c_topicsExtracted c"
    by blast
  from d(4,5) have "\<exists>c. c \<in> set (db_courses db') \<and> c_id c = str ''c1'' \<and> c_topicsExtracted c"
    by blast
  with d(1,2,3) show ?thesis by blast
qed

section \<open>Order indices\<close>

lemma reorder_orders:
  "map et_order (reorder k ts) = map int [Suc k..<Suc k + length ts]"
proof (induction ts arbitrary: k)
  case Nil
  then show ?case by simp
next
  case (Cons t ts)
  have "[Suc k..<Suc k + length (t # ts)] = Suc k # [Suc (Suc k)..<Suc (Suc k) + length ts]"
    by (simp add: upt_conv_Cons del: upt_Suc)
  with Cons.IH [of "Suc k"] show ?case by (simp del: upt_Suc)
qed

lemma reorder_length: "length (reorder k ts) = length ts"
  by (induction ts arbitrary: k) simp_all

lemma removeTopic_dense: "dense_orders (map et_order (removeTopic topicId prevTopics))"
  by (simp add: dense_orders_def removeTopic_def reorder_orders reorder_length del: upt_Suc)

lemma addNewTopic_dense:
  assumes "dense_orders (map et_order ts)"
  shows "dense_orders (map et_order (addNewTopic now ts))"
proof -
  have "[1..<Suc (Suc (length ts))] = [1..<Suc (length ts)] @ [Suc (length ts)]"
    by (rule upt_Suc_append) simp
  with assms show ?thesis
    by (simp add: dense_orders_def addNewTopic_def del: upt_Suc)
qed

lemma deleteTopic_success:
  assumes "sr_success (fst (deleteTopic env db topicId))"
  shows "db_topics (snd (deleteTopic env db topicId)) =
           filter (\<lambda>t. t_id t \<noteq> topicId) (db_topics db)"
  using assms
  by (auto simp: deleteTopic_def service_denied_def service_failed_def
      service_network_error_def
      split: option.splits outcome.splits list.splits prod.splits if_splits)

lemma createTopic_success:
  assumes "sr_success (fst (createTopic env db courseId title content orderIndex))"
  shows "db_topics (snd (createTopic env db courseId title content orderIndex)) =
           db_topics db @
             [\<lparr>t_id = new_id env 0, t_courseId = courseId, t_title = title,
               t_content = content, t_orderIndex = orderIndex, t_createdAt = clock env 0\<rparr>]"
  using assms
  by (auto simp: createTopic_def service_denied_def service_failed_def
      service_network_error_def Let_def
      split: option.splits outcome.splits if_splits)

lemma dense_123: "dense_orders [1, 2, 3]"
  by (simp add: dense_orders_def upt_conv_Cons del: upt_Suc)

lemma not_dense_23: "\<not> dense_orders [2, 3]"
  by (simp add: dense_orders_def upt_conv_Cons del: upt_Suc)

lemma sample_orders: "course_orders sample_db (str ''c1'') = [1, 2, 3]"
  by (simp add: course_orders_def sample_db_def sample_topic_def)

lemma sample_delete:
  "deleteTopic sample_env sample_db (str ''t1'') =
     (service_ok True,
      sample_db\<lparr>db_topics := [sample_topic ''t2'' ''Loops'' 2, sample_topic ''t3'' ''Functions'' 3]\<rparr>)"
  by (simp add: deleteTopic_def sample_user sample_outcomes topic_with_course_def
      sample_db_def sample_topic_def sample_course_def str_def)

text \<open>
  Claim C8, as stated, fails for \<open>TopicService.deleteTopic\<close>: deleting the first of
  three stored topics with order indices 1, 2, 3 succeeds and leaves the indices 2, 3.
\<close>

theorem deleteTopic_leaves_gap:
  "dense_orders (course_orders sample_db (str ''c1'')) \<and>
   sr_success (fst (deleteTopic sample_env sample_db (str ''t1''))) \<and>
   course_orders (snd (deleteTopic sample_env sample_db (str ''t1''))) (str ''c1'') = [2, 3] \<and>
   \<not> dense_orders (course_orders (snd (deleteTopic sample_env sample_db (str ''t1''))) (str ''c1''))"
proof -
  have a: "course_orders (snd (deleteTopic sample_env sample_db (str ''t1''))) (str ''c1'') = [2, 3]"
    by (simp add: sample_delete) (simp add: course_orders_def sample_db_def sample_topic_def)
  show ?thesis
    by (simp add: a sample_orders dense_123 not_dense_23) (simp add: sample_delete service_ok_def)
qed

text \<open>
  Claim C8, amended. In the review screen the order indices are 1..n after every
  \<open>removeTopic\<close> (the remaining topics are reindexed) and stay 1..n after every
  \<open>addNewTopic\<close>. The topic service does not reindex: a successful \<open>deleteTopic\<close>
  removes the rows of that identifier and leaves all other rows as they are, and a
  successful \<open>createTopic\<close> appends one row with the order index the caller gave.
\<close>

theorem topic_orders:
  "dense_orders (map et_order (removeTopic topicId prevTopics)) \<and>
   (dense_orders (map et_order ts) \<longrightarrow> dense_orders (map et_order (addNewTopic now ts))) \<and>
   (sr_success (fst (deleteTopic env db rowId)) \<longrightarrow>
      db_topics (snd (deleteTopic env db rowId)) =
        filter (\<lambda>t. t_id t \<noteq> rowId) (db_topics db)) \<and>
   (sr_success (fst (createTopic env db courseId title content orderIndex)) \<longrightarrow>
      db_topics (snd (createTopic env db courseId title content orderIndex)) =
        db_topics db @
          [\<lparr>t_id = new_id env 0, t_courseId = courseId, t_title = title,
            t_content = content, t_orderIndex = orderIndex, t_createdAt = clock env 0\<rparr>])"
  using removeTopic_dense addNewTopic_dense deleteTopic_success createTopic_success
  by (intro conjI impI)

theorem topic_orders_witness:
  "map et_order (removeTopic (str ''topic-1'') three_topics) = [1, 2] \<and>
   dense_orders (map et_order (removeTopic (str ''topic-1'') three_topics)) \<and>
   dense_orders (map et_order three_topics) \<and>
   dense_orders (map et_order (addNewTopic 1700000000000 three_topics)) \<and>
   sr_success (fst (deleteTopic sample_env sample_db (str ''t1''))) \<and>
   db_topics (snd (deleteTopic sample_env sample_db (str ''t1''))) =
     [sample_topic ''t2'' ''Loops'' 2, sample_topic ''t3'' ''Functions'' 3] \<and>
   sr_success (fst (createTopic sample_env sample_db (str ''c1'') (str ''Recursion'') [] 7)) \<and>
   map t_orderIndex
     (db_topics (snd (createTopic sample_env sample_db (str ''c1'') (str ''Recursion'') [] 7))) =
     [1, 2, 3, 7]"
proof -
  note t = topic_orders [where topicId = "str ''topic-1''" and prevTopics = three_topics
      and ts = three_topics and now = 1700000000000 and env = sample_env and db = sample_db
      and rowId = "str ''t1''" and courseId = "str ''c1''" and title = "str ''Recursion''"
      and content = "[]" and orderIndex = 7]
  have r: "map et_order (removeTopic (str ''topic-1'') three_topics) = [1, 2]"
    by (simp add: removeTopic_def three_topics_def str_def)
  have d: "dense_orders (map et_order three_topics)"
    using dense_123 by (simp add: three_topics_def)
  have s: "sr_success (fst (deleteTopic sample_env sample_db (str ''t1'')))"
    by (simp add: sample_delete service_ok_def)
  have c: "sr_success (fst (createTopic sample_env sample_db (str ''c1'') (str ''Recursion'') [] 7))"
    by (simp add: createTopic_def sample_user sample_owner sample_outcomes service_ok_def Let_def)
  have f: "filter (\<lambda>t. t_id t \<noteq> str ''t1'') (db_topics sample_db) =
             [sample_topic ''t2'' ''Loops'' 2, sample_topic ''t3'' ''Functions'' 3]"
    by (simp add: sample_db_def sample_topic_def str_def)
  have o: "map t_orderIndex (db_topics sample_db) = [1, 2, 3]"
    by (simp add: sample_db_def sample_topic_def)
  from t r d s c show ?thesis
    by (simp add: f o)
qed

section \<open>Text cleaning\<close>

subsection \<open>Carriage returns\<close>

lemma replace_crlf_id: "CR \<notin> set t \<Longrightarrow> replace_crlf t = t"
  by (induction t rule: replace_crlf.induct) simp_all

lemma replace_cr_id: "CR \<notin> set t \<Longrightarrow> replace_cr t = t"
  unfolding replace_cr_def by (induction t) auto

lemma replace_crlf_all:
  "\<forall>c \<in> set s. Q c \<Longrightarrow> Q LF \<Longrightarrow> \<forall>c \<in> set (replace_crlf s). Q c"
  by (induction s rule: replace_crlf.induct) simp_all

lemma replace_cr_all:
  "\<forall>c \<in> set s. c \<noteq> CR \<longrightarrow> Q c \<Longrightarrow> Q LF \<Longrightarrow> \<forall>c \<in> set (replace_cr s). Q c"
  unfolding replace_cr_def by (induction s) simp_all

lemma replace_nl3_all:
  "\<forall>c \<in> set s. Q c \<Longrightarrow> \<forall>c \<in> set (replace_nl3 s). Q c"
proof (induction s rule: replace_nl3.induct)
  case 1
  then show ?case by simp
next
  case (2 c cs)
  have d: "\<forall>x \<in> set (dropWhile (\<lambda>x. x = LF) cs). Q x"
    using 2(3) by (auto dest: set_dropWhileD)
  show ?case
  proof (cases "c = LF \<and> 2 \<le> length (takeWhile (\<lambda>x. x = LF) cs)")
    case True
    with 2(1) [OF True d] 2(3) show ?thesis by simp
  next
    case False
    with 2(2) [OF False] 2(3) show ?thesis by auto
  qed
qed

lemma replace_blanks_all:
  "\<forall>c \<in> set s. \<not> isBlank c \<longrightarrow> Q c \<Longrightarrow> Q SP \<Longrightarrow> \<forall>c \<in> set (replace_blanks s). Q c"
proof (induction s rule: replace_blanks.induct)
  case 1
  then show ?case by simp
next
  case (2 c cs)
  have d: "\<forall>x \<in> set (dropWhile isBlank cs). \<not> isBlank x \<longrightarrow> Q x"
    using 2(3) by (auto dest: set_dropWhileD)
  show ?case
  proof (cases "isBlank c")
    case True
    with 2(1) [OF True d 2(4)] 2(4) show ?thesis by simp
  next
    case False
    with 2(2) [OF False _ 2(4)] 2(3) show ?thesis by simp
  qed
qed

lemma trim_decompose: "\<exists>a b. s = a @ trim s @ b"
proof -
  let ?u = "dropWhile isWhiteSpace s"
  have "trim s @ rev (takeWhile isWhiteSpace (rev ?u)) =
          rev (takeWhile isWhiteSpace (rev ?u) @ dropWhile isWhiteSpace (rev ?u))"
    by (simp only: trim_def rev_append)
  also have "\<dots> = rev (rev ?u)"
    by (simp only: takeWhile_dropWhile_id)
  also have "\<dots> = ?u"
    by simp
  finally have u: "?u = trim s @ rev (takeWhile isWhiteSpace (rev ?u))"
    by (rule sym)
  have "s = takeWhile isWhiteSpace s @ ?u"
    by simp
  then have "s = takeWhile isWhiteSpace s @ trim s @ rev (takeWhile isWhiteSpace (rev ?u))"
    using u by (simp only:)
  then show ?thesis by blast
qed

lemma trim_all: "\<forall>c \<in> set s. Q c \<Longrightarrow> \<forall>c \<in> set (trim s). Q c"
proof -
  assume a: "\<forall>c \<in> set s. Q c"
  obtain x y where "s = x @ trim s @ y" using trim_decompose by blast
  then have "set (trim s) \<subseteq> set s"
    by (metis Un_iff set_append subsetI)
  with a show ?thesis by blast
qed

lemma normalize_ws_no_cr: "CR \<notin> set (normalize_ws s)"
proof -
  have 1: "\<forall>c \<in> set (replace_cr (replace_crlf s)). c \<noteq> CR"
    by (rule replace_cr_all) simp_all
  have 2: "\<forall>c \<in> set (replace_nl3 (replace_cr (replace_crlf s))). c \<noteq> CR"
    using 1 by (rule replace_nl3_all)
  have 3: "\<forall>c \<in> set (replace_blanks (replace_nl3 (replace_cr (replace_crlf s)))). c \<noteq> CR"
    by (rule replace_blanks_all) (use 2 in simp_all)
  have "\<forall>c \<in> set (normalize_ws s). c \<noteq> CR"
    unfolding normalize_ws_def using 3 by (rule trim_all)
  then show ?thesis by blast
qed


subsection \<open>Runs of line feeds\<close>

lemma lf_run_simps [simp]:
  "lf_run [] = 0"
  "lf_run (c # cs) = (if c = LF then Suc (lf_run cs) else 0)"
  by (simp_all add: lf_run_def)

lemma lf_run_dropWhile [simp]: "lf_run (dropWhile (\<lambda>x. x = LF) cs) = 0"
  by (induction cs) simp_all

lemma lf_run_replace_nl3: "lf_run (replace_nl3 s) = min 2 (lf_run s)"
proof (induction s rule: replace_nl3.induct)
  case 1
  then show ?case by simp
next
  case (2 c cs)
  show ?case
  proof (cases "c = LF \<and> 2 \<le> length (takeWhile (\<lambda>x. x = LF) cs)")
    case True
    with 2(1) [OF True] show ?thesis
      by (simp add: lf_run_def [symmetric])
  next
    case False
    with 2(2) [OF False] show ?thesis
      by (auto simp add: lf_run_def [symmetric])
  qed
qed

lemma no_nl3_replace_nl3: "no_nl3 (replace_nl3 s)"
proof (induction s rule: replace_nl3.induct)
  case 1
  then show ?case by simp
next
  case (2 c cs)
  show ?case
  proof (cases "c = LF \<and> 2 \<le> length (takeWhile (\<lambda>x. x = LF) cs)")
    case True
    with 2(1) [OF True] show ?thesis
      by (simp add: lf_run_replace_nl3)
  next
    case False
    with 2(2) [OF False] show ?thesis
      by (auto simp add: lf_run_replace_nl3 lf_run_def [symmetric])
  qed
qed

lemma replace_nl3_id: "no_nl3 t \<Longrightarrow> replace_nl3 t = t"
  by (induction t) (auto simp add: lf_run_def [symmetric])

lemma lf_run_replace_blanks: "lf_run (replace_blanks s) = lf_run s"
  by (induction s rule: replace_blanks.induct) (auto simp: isBlank_def)

lemma no_nl3_suffix: "no_nl3 (a @ s) \<Longrightarrow> no_nl3 s"
  by (induction a) simp_all

lemma lf_run_prefix: "lf_run s \<le> lf_run (s @ b)"
  by (induction s) simp_all

lemma no_nl3_prefix: "no_nl3 (s @ b) \<Longrightarrow> no_nl3 s"
proof (induction s)
  case Nil
  then show ?case by simp
next
  case (Cons c s)
  then show ?case
    using lf_run_prefix [of s b] by (auto split: if_splits)
qed

lemma no_nl3_dropWhile: "no_nl3 s \<Longrightarrow> no_nl3 (dropWhile P s)"
  by (metis no_nl3_suffix takeWhile_dropWhile_id)

lemma no_nl3_replace_blanks: "no_nl3 s \<Longrightarrow> no_nl3 (replace_blanks s)"
proof (induction s rule: replace_blanks.induct)
  case 1
  then show ?case by simp
next
  case (2 c cs)
  from 2(3) have cs: "no_nl3 cs" by simp
  show ?case
  proof (cases "isBlank c")
    case True
    with 2(1) [OF True no_nl3_dropWhile [OF cs]] show ?thesis by simp
  next
    case False
    with 2(2) [OF False cs] 2(3) show ?thesis
      by (simp add: lf_run_replace_blanks)
  qed
qed

lemma no_nl3_trim: "no_nl3 s \<Longrightarrow> no_nl3 (trim s)"
proof -
  assume a: "no_nl3 s"
  obtain x y where "s = x @ trim s @ y" using trim_decompose by blast
  with a have "no_nl3 (x @ trim s @ y)" by simp
  then show ?thesis
    by (blast dest: no_nl3_suffix no_nl3_prefix)
qed

subsection \<open>Runs of blanks\<close>

lemma replace_blanks_head:
  "s = [] \<or> \<not> isBlank (hd s) \<Longrightarrow>
   replace_blanks s = [] \<or> \<not> isBlank (hd (replace_blanks s))"
  by (cases s) auto

lemma dropWhile_head: "dropWhile P s = [] \<or> \<not> P (hd (dropWhile P s))"
  using hd_dropWhile [of P s] by blast

lemma no_blank_run_replace_blanks: "no_blank_run (replace_blanks s)"
proof (induction s rule: replace_blanks.induct)
  case 1
  then show ?case by simp
next
  case (2 c cs)
  show ?case
  proof (cases "isBlank c")
    case True
    with 2(1) [OF True] replace_blanks_head [OF dropWhile_head [of isBlank cs]]
    show ?thesis by (simp add: isBlank_def)
  next
    case False
    with 2(2) [OF False] show ?thesis by simp
  qed
qed

lemma replace_blanks_id: "no_blank_run t \<Longrightarrow> replace_blanks t = t"
proof (induction t)
  case Nil
  then show ?case by simp
next
  case (Cons c t)
  then have t: "replace_blanks t = t" by simp
  show ?case
  proof (cases "isBlank c")
    case True
    with Cons.prems have "c = SP" "t = [] \<or> \<not> isBlank (hd t)" by simp_all
    then have "dropWhile isBlank t = t"
      by (simp add: dropWhile_eq_self_iff)
    with True t \<open>c = SP\<close> show ?thesis by simp
  next
    case False
    with t show ?thesis by simp
  qed
qed

lemma no_blank_run_suffix: "no_blank_run (a @ s) \<Longrightarrow> no_blank_run s"
  by (induction a) simp_all

lemma no_blank_run_prefix: "no_blank_run (s @ b) \<Longrightarrow> no_blank_run s"
proof (induction s)
  case Nil
  then show ?case by simp
next
  case (Cons c s)
  then show ?case by (cases s) (auto split: if_splits)
qed

lemma no_blank_run_trim: "no_blank_run s \<Longrightarrow> no_blank_run (trim s)"
proof -
  assume a: "no_blank_run s"
  obtain x y where "s = x @ trim s @ y" using trim_decompose by blast
  with a have "no_blank_run (x @ trim s @ y)" by simp
  then show ?thesis
    by (blast dest: no_blank_run_suffix no_blank_run_prefix)
qed

subsection \<open>Trimming\<close>

lemma trim_id:
  assumes "t = [] \<or> (\<not> isWhiteSpace (hd t) \<and> \<not> isWhiteSpace (last t))"
  shows "trim t = t"
proof (cases "t = []")
  case True
  then show ?thesis by (simp add: trim_def)
next
  case False
  with assms have h: "\<not> isWhiteSpace (hd t)" and l: "\<not> isWhiteSpace (last t)"
    by simp_all
  from h False have 1: "dropWhile isWhiteSpace t = t"
    by (simp add: dropWhile_eq_self_iff)
  from l False have 2: "dropWhile isWhiteSpace (rev t) = rev t"
    by (simp add: dropWhile_eq_self_iff hd_rev)
  show ?thesis by (simp add: trim_def 1 2)
qed

lemma trim_ends: "trim s = [] \<or> (\<not> isWhiteSpace (hd (trim s)) \<and> \<not> isWhiteSpace (last (trim s)))"
proof (cases "trim s = []")
  case True
  then show ?thesis by simp
next
  case False
  let ?u = "dropWhile isWhiteSpace s"
  let ?v = "dropWhile isWhiteSpace (rev ?u)"
  have v: "?v \<noteq> []" using False by (simp add: trim_def)
  have t: "trim s = rev ?v" by (simp add: trim_def)
  from v have "\<not> isWhiteSpace (hd ?v)"
    using hd_dropWhile by blast
  then have l: "\<not> isWhiteSpace (last (trim s))"
    using v by (simp add: t last_rev)
  have "?v \<noteq> [] \<Longrightarrow> last ?v = last (rev ?u)"
    by (metis append_is_Nil_conv last_appendR takeWhile_dropWhile_id)
  with v have "last ?v = last (rev ?u)" by simp
  moreover have u: "?u \<noteq> []"
  proof
    assume "?u = []"
    then have "?v = []" by (simp only: rev.simps dropWhile.simps)
    with v show False by simp
  qed
  ultimately have "hd (trim s) = hd ?u"
    using v by (simp add: t hd_rev last_rev)
  moreover from u have "\<not> isWhiteSpace (hd ?u)"
    using hd_dropWhile by blast
  ultimately show ?thesis using l by simp
qed

lemma trim_idem: "trim (trim s) = trim s"
  by (rule trim_id) (rule trim_ends)

subsection \<open>The normalized text is a fixed point\<close>

lemma normalize_ws_no_nl3: "no_nl3 (normalize_ws s)"
  unfolding normalize_ws_def
  by (intro no_nl3_trim no_nl3_replace_blanks no_nl3_replace_nl3)

lemma normalize_ws_no_blank_run: "no_blank_run (normalize_ws s)"
  unfolding normalize_ws_def
  by (intro no_blank_run_trim no_blank_run_replace_blanks)

lemma normalize_ws_idem: "normalize_ws (normalize_ws s) = normalize_ws s"
proof -
  let ?t = "normalize_ws s"
  have "normalize_ws ?t = trim ?t"
    unfolding normalize_ws_def [of ?t]
    by (simp only: replace_crlf_id [OF normalize_ws_no_cr] replace_cr_id [OF normalize_ws_no_cr]
        replace_nl3_id [OF normalize_ws_no_nl3] replace_blanks_id [OF normalize_ws_no_blank_run])
  also have "\<dots> = ?t"
    unfolding normalize_ws_def by (rule trim_idem)
  finally show ?thesis .
qed


subsection \<open>Lengths and printable characters\<close>

lemma replace_crlf_length: "length (replace_crlf s) \<le> length s"
  by (induction s rule: replace_crlf.induct) (auto simp: le_SucI)

lemma replace_nl3_length: "length (replace_nl3 s) \<le> length s"
proof (induction s rule: replace_nl3.induct)
  case 1
  then show ?case by simp
next
  case (2 c cs)
  show ?case
  proof (cases "c = LF \<and> 2 \<le> length (takeWhile (\<lambda>x. x = LF) cs)")
    case True
    have "length (takeWhile (\<lambda>x. x = LF) cs) + length (dropWhile (\<lambda>x. x = LF) cs) = length cs"
      by (simp flip: length_append)
    with True 2(1) [OF True] show ?thesis by simp
  next
    case False
    with 2(2) [OF False] show ?thesis by auto
  qed
qed

lemma replace_blanks_length: "length (replace_blanks s) \<le> length s"
proof (induction s rule: replace_blanks.induct)
  case 1
  then show ?case by simp
next
  case (2 c cs)
  show ?case
  proof (cases "isBlank c")
    case True
    with 2(1) [OF True] length_dropWhile_le [of isBlank cs] show ?thesis by simp
  next
    case False
    with 2(2) [OF False] show ?thesis by simp
  qed
qed

lemma trim_length: "length (trim s) \<le> length s"
proof -
  obtain x y where "s = x @ trim s @ y" using trim_decompose by blast
  then have "length s = length x + length (trim s) + length y"
    by (metis add.assoc length_append)
  then show ?thesis by simp
qed

lemma normalize_ws_length: "length (normalize_ws s) \<le> length s"
proof -
  have "length (normalize_ws s) \<le> length (replace_blanks (replace_nl3 (replace_cr (replace_crlf s))))"
    unfolding normalize_ws_def by (rule trim_length)
  also have "\<dots> \<le> length (replace_nl3 (replace_cr (replace_crlf s)))"
    by (rule replace_blanks_length)
  also have "\<dots> \<le> length (replace_cr (replace_crlf s))"
    by (rule replace_nl3_length)
  also have "\<dots> = length (replace_crlf s)"
    by (simp add: replace_cr_def)
  also have "\<dots> \<le> length s"
    by (rule replace_crlf_length)
  finally show ?thesis .
qed

lemma normalize_ws_printable:
  assumes "\<forall>c \<in> set s. isPrintable c \<or> c = CR \<or> c = TAB"
  shows "\<forall>c \<in> set (normalize_ws s). isPrintable c"
proof -
  have 1: "\<forall>c \<in> set (replace_crlf s). isPrintable c \<or> c = CR \<or> c = TAB"
    using assms by (rule replace_crlf_all) (simp add: isPrintable_def)
  have 2: "\<forall>c \<in> set (replace_cr (replace_crlf s)). isPrintable c \<or> c = TAB"
    by (rule replace_cr_all) (use 1 in \<open>auto simp: isPrintable_def\<close>)
  have 3: "\<forall>c \<in> set (replace_nl3 (replace_cr (replace_crlf s))). isPrintable c \<or> c = TAB"
    using 2 by (rule replace_nl3_all)
  have 4: "\<forall>c \<in> set (replace_blanks (replace_nl3 (replace_cr (replace_crlf s)))). isPrintable c"
    by (rule replace_blanks_all) (use 3 in \<open>auto simp: isPrintable_def isBlank_def\<close>)
  show ?thesis
    unfolding normalize_ws_def using 4 by (rule trim_all)
qed

lemma cleanSyllabusText_untruncated:
  "length (normalize_ws s) \<le> 8000 \<Longrightarrow> cleanSyllabusText s = normalize_ws s"
  by (simp add: cleanSyllabusText_def)

lemma cleanExtractedText_unchanged:
  assumes "length (normalize_ws s) \<le> 10000" and "\<forall>c \<in> set (normalize_ws s). isPrintable c"
  shows "cleanExtractedText s = normalize_ws s"
proof (cases "s = []")
  case True
  then show ?thesis
    by (simp add: cleanExtractedText_def normalize_ws_def trim_def replace_cr_def)
next
  case False
  with assms show ?thesis
    by (simp add: cleanExtractedText_def replace_nonprintable_def filter_id_conv)
qed

lemma no_nl3_without_lf: "LF \<notin> set s \<Longrightarrow> no_nl3 s"
  by (induction s) simp_all

lemma no_blank_run_append:
  "\<forall>c \<in> set a. \<not> isBlank c \<Longrightarrow> no_blank_run b \<Longrightarrow> no_blank_run (a @ b)"
  by (induction a) simp_all

lemma normalize_ws_fixed:
  assumes "CR \<notin> set t" and "no_nl3 t" and "no_blank_run t"
  shows "normalize_ws t = trim t"
  unfolding normalize_ws_def
  by (simp only: replace_crlf_id [OF assms(1)] replace_cr_id [OF assms(1)]
      replace_nl3_id [OF assms(2)] replace_blanks_id [OF assms(3)])

lemma long_text_once: "cleanSyllabusText long_text = replicate 7999 0x61 @ [SP]"
proof -
  have 1: "CR \<notin> set long_text" "LF \<notin> set long_text"
    by (simp_all add: long_text_def)
  have 2: "no_blank_run long_text"
    unfolding long_text_def by (rule no_blank_run_append) (simp_all add: isBlank_def)
  have 3: "trim long_text = long_text"
    by (rule trim_id) (simp add: long_text_def isWhiteSpace_def)
  have "normalize_ws long_text = long_text"
    using normalize_ws_fixed [OF 1(1) no_nl3_without_lf [OF 1(2)] 2] 3 by simp
  then show ?thesis
    by (simp add: cleanSyllabusText_def) (simp add: long_text_def)
qed

lemma long_text_twice:
  "cleanSyllabusText (replicate 7999 0x61 @ [SP]) = replicate 7999 0x61"
proof -
  let ?t = "replicate 7999 0x61 @ [SP]"
  have 1: "CR \<notin> set ?t" "LF \<notin> set ?t"
    by simp_all
  have 2: "no_blank_run ?t"
    by (rule no_blank_run_append) (simp_all add: isBlank_def)
  have 3: "trim ?t = replicate 7999 0x61"
    by (simp add: trim_def isWhiteSpace_def dropWhile_eq_self_iff dropWhile_replicate)
  have "normalize_ws ?t = replicate 7999 0x61"
    using normalize_ws_fixed [OF 1(1) no_nl3_without_lf [OF 1(2)] 2] 3 by simp
  then show ?thesis
    by (simp add: cleanSyllabusText_def)
qed

text \<open>
  Claim C4, as stated, fails for both cleaners. \<open>cleanExtractedText\<close> strips
  characters after it has collapsed the blanks, so \<open>a\<close>, space, \<open>U+00E9\<close>, space,
  \<open>b\<close> becomes \<open>a\<close>, two spaces, \<open>b\<close>, which a second application collapses.
  \<open>cleanSyllabusText\<close> truncates after it has trimmed, so a text of 7999 letters, a
  space and a letter is cut to end in the space, which a second application trims.
\<close>

theorem clean_not_idempotent:
  "cleanExtractedText accented_text = str ''a  b'' \<and>
   cleanExtractedText (cleanExtractedText accented_text) = str ''a b'' \<and>
   cleanExtractedText (cleanExtractedText accented_text) \<noteq> cleanExtractedText accented_text \<and>
   cleanSyllabusText long_text = replicate 7999 0x61 @ [SP] \<and>
   cleanSyllabusText (cleanSyllabusText long_text) = replicate 7999 0x61 \<and>
   cleanSyllabusText (cleanSyllabusText long_text) \<noteq> cleanSyllabusText long_text"
proof -
  have a: "cleanExtractedText accented_text = str ''a  b''"
    by (simp add: cleanExtractedText_def normalize_ws_def accented_text_def str_def
        replace_cr_def isBlank_def trim_def isWhiteSpace_def replace_nonprintable_def
        isPrintable_def)
  have b: "cleanExtractedText (str ''a  b'') = str ''a b''"
    by (simp add: cleanExtractedText_def normalize_ws_def str_def
        replace_cr_def isBlank_def trim_def isWhiteSpace_def replace_nonprintable_def
        isPrintable_def)
  have c: "str ''a b'' \<noteq> str ''a  b''"
    by (simp add: str_def)
  have d: "replicate 7999 (0x61 :: jschar) \<noteq> replicate 7999 0x61 @ [SP]"
    by simp
  show ?thesis
    by (simp only: a b long_text_once long_text_twice) (simp add: c d)
qed

text \<open>
  Claim C4, amended. Applying a cleaner twice yields the same result as applying it
  once where the first application neither truncates nor strips: \<open>cleanSyllabusText\<close>
  on every text of at most 8000 code units, and \<open>cleanExtractedText\<close> on every text of
  at most 10000 code units that consists of printable ASCII characters, line feeds,
  carriage returns and tabs.
\<close>

theorem clean_idempotent:
  "(length text \<le> 8000 \<longrightarrow>
      cleanSyllabusText (cleanSyllabusText text) = cleanSyllabusText text) \<and>
   (length text \<le> 10000 \<and> (\<forall>c \<in> set text. isPrintable c \<or> c = CR \<or> c = TAB) \<longrightarrow>
      cleanExtractedText (cleanExtractedText text) = cleanExtractedText text)"
proof (intro conjI impI)
  assume "length text \<le> 8000"
  with normalize_ws_length [of "text"] have l: "length (normalize_ws text) \<le> 8000"
    by simp
  then have l2: "length (normalize_ws (normalize_ws text)) \<le> 8000"
    by (simp only: normalize_ws_idem)
  show "cleanSyllabusText (cleanSyllabusText text) = cleanSyllabusText text"
    by (simp only: cleanSyllabusText_untruncated [OF l] cleanSyllabusText_untruncated [OF l2]
        normalize_ws_idem)
next
  assume a: "length text \<le> 10000 \<and> (\<forall>c \<in> set text. isPrintable c \<or> c = CR \<or> c = TAB)"
  with normalize_ws_length [of "text"] have l: "length (normalize_ws text) \<le> 10000"
    by simp
  from a have p: "\<forall>c \<in> set (normalize_ws text). isPrintable c"
    by (intro normalize_ws_printable) simp
  have l2: "length (normalize_ws (normalize_ws text)) \<le> 10000"
    using l by (simp only: normalize_ws_idem)
  have p2: "\<forall>c \<in> set (normalize_ws (normalize_ws text)). isPrintable c"
    using p by (simp only: normalize_ws_idem)
  show "cleanExtractedText (cleanExtractedText text) = cleanExtractedText text"
    by (simp only: cleanExtractedText_unchanged [OF l p] cleanExtractedText_unchanged [OF l2 p2]
        normalize_ws_idem)
qed

theorem clean_idempotent_witness:
  "length messy_text \<le> 8000 \<and> length messy_text \<le> 10000 \<and>
   cleanSyllabusText messy_text = str ''Week 1'' @ [LF, LF] @ str ''Intro to CS'' \<and>
   cleanSyllabusText (cleanSyllabusText messy_text) = cleanSyllabusText messy_text \<and>
   cleanExtractedText (cleanExtractedText messy_text) = cleanExtractedText messy_text"
proof -
  have l: "length messy_text \<le> 8000" "length messy_text \<le> 10000"
    by (simp_all add: messy_text_def str_def)
  have p: "\<forall>c \<in> set messy_text. isPrintable c \<or> c = CR \<or> c = TAB"
    by (simp add: messy_text_def str_def isPrintable_def)
  have v: "cleanSyllabusText messy_text = str ''Week 1'' @ [LF, LF] @ str ''Intro to CS''"
    by (simp add: cleanSyllabusText_def normalize_ws_def messy_text_def str_def replace_cr_def
        isBlank_def trim_def isWhiteSpace_def)
  from clean_idempotent [of messy_text] l p v show ?thesis
    by blast
qed

end
